theory Spec2Isabelle
  imports Complex_Main
begin


section \<open>JavaScript numbers\<close>

text \<open>
  The library computes with the JavaScript type \<open>number\<close>. It is modelled as the reals
  extended with the three special values the code produces and tests for: \<open>NaN\<close>,
  \<open>-Infinity\<close> and \<open>Infinity\<close>. The arithmetic follows IEEE 754 on the special
  values (an absorbing \<open>NaN\<close>, \<open>Infinity - Infinity = NaN\<close>, \<open>0 * Infinity = NaN\<close>,
  \<open>x / 0 = \<plusminus>Infinity\<close>, every comparison with \<open>NaN\<close> false). Rounding and the sign
  of zero are not modelled: finite values are exact reals and \<open>0\<close> is \<open>+0\<close>.

  Where every floating-point operation of a computation is exact in double precision, the
  value of the model is the value of the program; elsewhere it is that value up to
  rounding. What depends on the last bit of a result (the equality of two rounded
  differences, the exact value of a sum of decimal constants, the bin of a sample's
  maximum when the bound of the bin is \<open>max + Number.EPSILON\<close>) is therefore stated below
  only at inputs on which the operations are exact, or as a bound.
\<close>

datatype number = NaN | NInf | PInf | Fin real

instantiation number :: "{uminus, plus, minus, times, inverse, abs, ord}"
begin

fun uminus_number :: "number \<Rightarrow> number" where
  "uminus_number NaN = NaN"
| "uminus_number NInf = PInf"
| "uminus_number PInf = NInf"
| "uminus_number (Fin x) = Fin (- x)"

fun plus_number :: "number \<Rightarrow> number \<Rightarrow> number" where
  "plus_number NaN _ = NaN"
| "plus_number _ NaN = NaN"
| "plus_number PInf NInf = NaN"
| "plus_number NInf PInf = NaN"
| "plus_number PInf _ = PInf"
| "plus_number _ PInf = PInf"
| "plus_number NInf _ = NInf"
| "plus_number _ NInf = NInf"
| "plus_number (Fin x) (Fin y) = Fin (x + y)"

definition minus_number :: "number \<Rightarrow> number \<Rightarrow> number" where
  "minus_number a b = a + (- b)"

fun times_number :: "number \<Rightarrow> number \<Rightarrow> number" where
  "times_number NaN _ = NaN"
| "times_number _ NaN = NaN"
| "times_number PInf PInf = PInf"
| "times_number PInf NInf = NInf"
| "times_number NInf PInf = NInf"
| "times_number NInf NInf = PInf"
| "times_number PInf (Fin y) = (if y = 0 then NaN else if 0 < y then PInf else NInf)"
| "times_number NInf (Fin y) = (if y = 0 then NaN else if 0 < y then NInf else PInf)"
| "times_number (Fin x) PInf = (if x = 0 then NaN else if 0 < x then PInf else NInf)"
| "times_number (Fin x) NInf = (if x = 0 then NaN else if 0 < x then NInf else PInf)"
| "times_number (Fin x) (Fin y) = Fin (x * y)"

fun divide_number :: "number \<Rightarrow> number \<Rightarrow> number" where
  "divide_number NaN _ = NaN"
| "divide_number _ NaN = NaN"
| "divide_number (Fin x) (Fin y) =
     (if y = 0 then (if x = 0 then NaN else if 0 < x then PInf else NInf) else Fin (x / y))"
| "divide_number (Fin x) _ = Fin 0"
| "divide_number PInf (Fin y) = (if 0 \<le> y then PInf else NInf)"
| "divide_number NInf (Fin y) = (if 0 \<le> y then NInf else PInf)"
| "divide_number _ _ = NaN"

definition inverse_number :: "number \<Rightarrow> number" where
  "inverse_number a = divide (Fin 1) a"

fun abs_number :: "number \<Rightarrow> number" where
  "abs_number NaN = NaN"
| "abs_number NInf = PInf"
| "abs_number PInf = PInf"
| "abs_number (Fin x) = Fin \<bar>x\<bar>"

fun less_eq_number :: "number \<Rightarrow> number \<Rightarrow> bool" where
  "less_eq_number NaN _ = False"
| "less_eq_number _ NaN = False"
| "less_eq_number NInf _ = True"
| "less_eq_number _ PInf = True"
| "less_eq_number (Fin x) (Fin y) = (x \<le> y)"
| "less_eq_number _ _ = False"

fun less_number :: "number \<Rightarrow> number \<Rightarrow> bool" where
  "less_number NaN _ = False"
| "less_number _ NaN = False"
| "less_number (Fin x) (Fin y) = (x < y)"
| "less_number PInf _ = False"
| "less_number _ NInf = False"
| "less_number _ _ = True"

instance ..

end


text \<open>\<open>Math.sqrt\<close>, \<open>Math.log\<close>, \<open>Math.exp\<close>, \<open>Math.pow\<close> with a literal exponent,
  \<open>Math.max\<close>, \<open>Math.min\<close>, \<open>Math.ceil\<close>, \<open>Math.floor\<close>.\<close>

fun Math_sqrt :: "number \<Rightarrow> number" where
  "Math_sqrt (Fin x) = (if x < 0 then NaN else Fin (sqrt x))"
| "Math_sqrt PInf = PInf"
| "Math_sqrt _ = NaN"

fun Math_log :: "number \<Rightarrow> number" where
  "Math_log (Fin x) = (if x < 0 then NaN else if x = 0 then NInf else Fin (ln x))"
| "Math_log PInf = PInf"
| "Math_log _ = NaN"

fun Math_exp :: "number \<Rightarrow> number" where
  "Math_exp (Fin x) = Fin (exp x)"
| "Math_exp PInf = PInf"
| "Math_exp NInf = Fin 0"
| "Math_exp NaN = NaN"

fun Math_pow :: "number \<Rightarrow> nat \<Rightarrow> number" where
  "Math_pow x 0 = Fin 1"
| "Math_pow x (Suc k) = x * Math_pow x k"

definition Math_max :: "number \<Rightarrow> number \<Rightarrow> number" where
  "Math_max a b = (if a = NaN \<or> b = NaN then NaN else if a \<le> b then b else a)"

definition Math_min :: "number \<Rightarrow> number \<Rightarrow> number" where
  "Math_min a b = (if a = NaN \<or> b = NaN then NaN else if a \<le> b then a else b)"


fun Math_floor :: "number \<Rightarrow> number" where
  "Math_floor (Fin x) = Fin (of_int \<lfloor>x\<rfloor>)"
| "Math_floor a = a"

text \<open>Truthiness of a number (\<open>!x\<close>, \<open>x || y\<close>): \<open>0\<close> and \<open>NaN\<close> are falsy.\<close>

definition truthy :: "number \<Rightarrow> bool" where
  "truthy a = (a \<noteq> NaN \<and> a \<noteq> Fin 0)"

text \<open>Strict equality \<open>===\<close> of two numbers: \<open>NaN\<close> is not equal to itself.\<close>

definition strictEq :: "number \<Rightarrow> number \<Rightarrow> bool" where
  "strictEq a b = (a \<noteq> NaN \<and> b \<noteq> NaN \<and> a = b)"


section \<open>Special functions\<close>

text \<open>
  \<open>erf\<close> and \<open>normalCDF\<close>: the same text stands in the statistics utility, in the power
  analysis module and in the goodness-of-fit module.
\<close>

definition erf :: "number \<Rightarrow> number" where
  "erf x =
    (let a1 = Fin 0.254829592;
         a2 = Fin (- 0.284496736);
         a3 = Fin 1.421413741;
         a4 = Fin (- 1.453152027);
         a5 = Fin 1.061405429;
         p = Fin 0.3275911;
         sign = (if x \<ge> Fin 0 then Fin 1 else Fin (- 1));
         absX = \<bar>x\<bar>;
         t = Fin 1 / (Fin 1 + p * absX);
         y = Fin 1 - (((((a5 * t + a4) * t) + a3) * t + a2) * t + a1) * t * Math_exp (- absX * absX)
     in sign * y)"

definition normalCDF :: "number \<Rightarrow> number" where
  "normalCDF x = Fin 0.5 * (Fin 1 + erf (x / Math_sqrt (Fin 2)))"

text \<open>The inverse error function of the statistics utility: no guard before the square root.\<close>

definition inverseErrorFunction :: "number \<Rightarrow> number" where
  "inverseErrorFunction x =
    (let a = Fin 0.140012;
         sign = (if x \<ge> Fin 0 then Fin 1 else Fin (- 1));
         absX = \<bar>x\<bar>
     in if absX \<ge> Fin 1 then sign * PInf
        else let logTerm = Math_log (Fin 1 - absX * absX);
                 sqrtTerm = Math_sqrt (- logTerm - Fin 2 * Math_log (Fin 2) - a * logTerm)
             in sign * sqrtTerm)"

text \<open>The copy in the power analysis module: the square root's argument is guarded.\<close>

definition pa_inverseErrorFunction :: "number \<Rightarrow> number" where
  "pa_inverseErrorFunction x =
    (let a = Fin 0.140012;
         sign = (if x \<ge> Fin 0 then Fin 1 else Fin (- 1));
         absX = \<bar>x\<bar>
     in if absX \<ge> Fin 1 then sign * PInf
        else let arg = Fin 1 - absX * absX
             in if arg \<le> Fin 0 then sign * PInf
                else let logTerm = Math_log arg;
                         sqrtArg = - logTerm - Fin 2 * Math_log (Fin 2) - a * logTerm
                     in if sqrtArg < Fin 0 then sign * PInf
                        else let sqrtTerm = Math_sqrt sqrtArg in sign * sqrtTerm)"



section \<open>Errors\<close>

text \<open>
  The library throws plain \<open>Error\<close> objects that differ in their message only. One
  constructor stands for each kind of message:
  \<^item> \<open>EmptyDataError\<close>: "Data array cannot be empty" (also in its Chinese wording);
  \<^item> \<open>LengthMismatchError\<close>: "Pre and post sample lengths must be the same", and the
    Chinese message of the paired branch, "the data of paired samples must have the same
    length";
  \<^item> \<open>UnsupportedDistributionError\<close>: "Unsupported distribution type: ...".
  \<open>NonTermination\<close> is not thrown: it stands for a call that never returns (the table
  search of \<open>getApproximateTCriticalValue\<close> at \<open>Infinity\<close> degrees of freedom).
\<close>

datatype error = EmptyDataError | LengthMismatchError | UnsupportedDistributionError | NonTermination

definition andThen :: "error + 'a \<Rightarrow> ('a \<Rightarrow> error + 'b) \<Rightarrow> error + 'b" where
  "andThen r f = (case r of Inl e \<Rightarrow> Inl e | Inr v \<Rightarrow> f v)"

section \<open>Descriptive statistics\<close>

text \<open>
  A sample is an array of finite numbers (the input layer rejects anything else), so it is a
  \<open>real list\<close>; what is computed from it is a \<open>number\<close>.
  \<open>sumOf f data\<close> is \<open>data.reduce((acc, val) => acc + f(val), 0)\<close>.
\<close>

definition sumOf :: "(real \<Rightarrow> number) \<Rightarrow> real list \<Rightarrow> number" where
  "sumOf f data = foldl (\<lambda>acc val. acc + f val) (Fin 0) data"

definition len :: "'a list \<Rightarrow> number" where
  "len xs = Fin (real (length xs))"

definition calculateMean :: "real list \<Rightarrow> error + number" where
  "calculateMean data =
    (if data = [] then Inl EmptyDataError
     else Inr (sumOf Fin data / len data))"

definition calculateMedian :: "real list \<Rightarrow> error + number" where
  "calculateMedian data =
    (if data = [] then Inl EmptyDataError
     else let sortedData = sort data; n = length sortedData
          in if n mod 2 = 0
             then Inr ((Fin (sortedData ! (n div 2 - 1)) + Fin (sortedData ! (n div 2))) / Fin 2)
             else Inr (Fin (sortedData ! (n div 2))))"

text \<open>
  \<open>calculateMode\<close> counts in an object keyed by the numbers and reads it back with
  \<open>Object.entries\<close>: keys that are array indices (integers from 0 below \<open>2^32 - 1\<close>) come
  first in ascending order, the other keys follow in the order of their first insertion.
\<close>

definition isIndexKey :: "real \<Rightarrow> bool" where
  "isIndexKey v = (of_int \<lfloor>v\<rfloor> = v \<and> 0 \<le> v \<and> v < 4294967295)"

definition entryKeys :: "real list \<Rightarrow> real list" where
  "entryKeys data =
    (let ks = rev (remdups (rev data))
     in sort (filter isIndexKey ks) @ filter (\<lambda>v. \<not> isIndexKey v) ks)"

definition calculateMode :: "real list \<Rightarrow> error + real list" where
  "calculateMode data =
    (if data = [] then Inl EmptyDataError
     else let maxFreq = foldl (\<lambda>m v. max m (count_list data v)) 0 data
          in Inr (filter (\<lambda>v. count_list data v = maxFreq) (entryKeys data)))"

definition calculateVariance :: "real list \<Rightarrow> error + number" where
  "calculateVariance data =
    (if data = [] then Inl EmptyDataError
     else andThen (calculateMean data) (\<lambda>mean.
            Inr (sumOf (\<lambda>val. Math_pow (Fin val - mean) 2) data / len data)))"

definition calculateStd :: "real list \<Rightarrow> error + number" where
  "calculateStd data = andThen (calculateVariance data) (\<lambda>v. Inr (Math_sqrt v))"

text \<open>The optional \<open>basicStats\<close> argument of skewness and kurtosis.\<close>

record basicStats =
  bs_count :: number
  bs_mean :: number
  bs_std :: number

definition calculateSkewness :: "real list \<Rightarrow> basicStats option \<Rightarrow> error + number" where
  "calculateSkewness data basicStats =
    (if data = [] then Inl EmptyDataError
     else
       let n = (case basicStats of Some b \<Rightarrow> if truthy (bs_count b) then bs_count b else len data
                | None \<Rightarrow> len data)
       in andThen (case basicStats of Some b \<Rightarrow> if truthy (bs_mean b) then Inr (bs_mean b) else calculateMean data
                   | None \<Rightarrow> calculateMean data) (\<lambda>mean.
          andThen (calculateStd data) (\<lambda>std.
            if strictEq std (Fin 0) then Inr (Fin 0)
            else let thirdMoment = sumOf (\<lambda>val. Math_pow (Fin val - mean) 3) data / n
                 in Inr (thirdMoment / Math_pow std 3))))"

definition calculateKurtosis :: "real list \<Rightarrow> basicStats option \<Rightarrow> error + number" where
  "calculateKurtosis data basicStats =
    (if data = [] then Inl EmptyDataError
     else
       let n = (case basicStats of Some b \<Rightarrow> if truthy (bs_count b) then bs_count b else len data
                | None \<Rightarrow> len data)
       in andThen (case basicStats of Some b \<Rightarrow> if truthy (bs_mean b) then Inr (bs_mean b) else calculateMean data
                   | None \<Rightarrow> calculateMean data) (\<lambda>mean.
          andThen (case basicStats of Some b \<Rightarrow> if truthy (bs_std b) then Inr (bs_std b) else calculateStd data
                   | None \<Rightarrow> calculateStd data) (\<lambda>std.
            if strictEq std (Fin 0) then Inr (Fin 0)
            else let fourthMoment = sumOf (\<lambda>val. Math_pow (Fin val - mean) 4) data / n
                 in Inr (fourthMoment / Math_pow std 4 - Fin 3))))"

record quartiles =
  q1 :: number
  q3 :: number
  iqr :: number

definition calculateQuartiles :: "real list \<Rightarrow> error + quartiles" where
  "calculateQuartiles data =
    (if data = [] then Inl EmptyDataError
     else let sortedData = sort data; n = length sortedData;
              q1 = Fin (sortedData ! nat \<lfloor>real n * 0.25\<rfloor>);
              q3 = Fin (sortedData ! nat \<lfloor>real n * 0.75\<rfloor>)
          in Inr \<lparr>q1 = q1, q3 = q3, iqr = q3 - q1\<rparr>)"

text \<open>The sample standard deviation (divisor \<open>n - 1\<close>).\<close>

definition calculateStdDev :: "real list \<Rightarrow> error + number" where
  "calculateStdDev data =
    (if data = [] then Inl EmptyDataError
     else andThen (calculateMean data) (\<lambda>mean.
            let sumSquaredDiffs = sumOf (\<lambda>val. Math_pow (Fin val - mean) 2) data;
                sampleVariance = sumSquaredDiffs / (len data - Fin 1)
            in Inr (Math_sqrt sampleVariance)))"


section \<open>Critical values\<close>

text \<open>
  The table of \<open>getApproximateTCriticalValue\<close>: degrees of freedom, then the entries of the
  confidence levels 0.90, 0.95 and 0.99.
\<close>

definition tTable :: "(real \<times> (real \<times> real \<times> real)) list" where
  "tTable =
    [(1, (6.314, 12.706, 63.657)), (2, (2.920, 4.303, 9.925)), (3, (2.353, 3.182, 5.841)),
     (4, (2.132, 2.776, 4.604)), (5, (2.015, 2.571, 4.032)), (6, (1.943, 2.447, 3.707)),
     (7, (1.895, 2.365, 3.499)), (8, (1.860, 2.306, 3.355)), (9, (1.833, 2.262, 3.250)),
     (10, (1.812, 2.228, 3.169)), (11, (1.796, 2.201, 3.106)), (12, (1.782, 2.179, 3.055)),
     (13, (1.771, 2.160, 3.012)), (14, (1.761, 2.145, 2.977)), (15, (1.753, 2.131, 2.947)),
     (16, (1.746, 2.120, 2.921)), (17, (1.740, 2.110, 2.898)), (18, (1.734, 2.101, 2.878)),
     (19, (1.729, 2.093, 2.861)), (20, (1.725, 2.086, 2.845)), (21, (1.721, 2.080, 2.831)),
     (22, (1.717, 2.074, 2.819)), (23, (1.714, 2.069, 2.807)), (24, (1.711, 2.064, 2.797)),
     (25, (1.708, 2.060, 2.787)), (30, (1.697, 2.042, 2.750)), (40, (1.684, 2.021, 2.704)),
     (50, (1.676, 2.009, 2.678)), (60, (1.671, 2.000, 2.660)), (100, (1.660, 1.984, 2.626)),
     (1000, (1.646, 1.962, 2.581)), (10000, (1.645, 1.960, 2.576))]"

text \<open>
  \<open>while (!(closestDf in tTable) && closestDf > 1) closestDf--\<close>, on a finite number. At
  \<open>Infinity\<close> the loop never ends (\<open>Infinity - 1 = Infinity\<close>); at \<open>NaN\<close> and
  \<open>-Infinity\<close> the test \<open>closestDf > 1\<close> fails at once.
\<close>

function closestDfLoop :: "real \<Rightarrow> real" where
  "closestDfLoop d = (if map_of tTable d = None \<and> d > 1 then closestDfLoop (d - 1) else d)"
  by pat_completeness auto
termination
proof (relation "measure (\<lambda>d. nat \<lceil>d\<rceil>)")
  show "wf (measure (\<lambda>d::real. nat \<lceil>d\<rceil>))" by simp
next
  fix d :: real
  assume "map_of tTable d = None \<and> 1 < d"
  then have "1 < \<lceil>d\<rceil>" by (simp add: less_ceiling_iff)
  moreover have "\<lceil>d - 1\<rceil> = \<lceil>d\<rceil> - 1" by (simp add: ceiling_diff_one)
  ultimately show "(d - 1, d) \<in> measure (\<lambda>d. nat \<lceil>d\<rceil>)" by simp
qed

declare closestDfLoop.simps [simp del]

fun closestDf :: "number \<Rightarrow> error + number" where
  "closestDf (Fin d) = Inr (Fin (closestDfLoop d))"
| "closestDf PInf = Inl NonTermination"
| "closestDf a = Inr a"

text \<open>
  \<open>if (!(closestDf in tTable)) closestDf = Math.max(...keys)\<close>, then \<open>tTable[closestDf]\<close>:
  the row of the key found, and the row of the largest key, 10000, for anything else.
\<close>

fun dfEntry :: "number \<Rightarrow> real \<times> real \<times> real" where
  "dfEntry (Fin k) = (case map_of tTable k of Some row \<Rightarrow> row | None \<Rightarrow> (1.645, 1.960, 2.576))"
| "dfEntry _ = (1.645, 1.960, 2.576)"

text \<open>\<open>dfEntry[confidenceLevel] || dfEntry[0.95] || 1.96\<close>: no entry is zero, so the first
  alternative is taken exactly when the level is a key of the row.\<close>

definition levelEntry :: "real \<times> real \<times> real \<Rightarrow> number \<Rightarrow> number" where
  "levelEntry row confidenceLevel =
    (case row of (t90, t95, t99) \<Rightarrow>
       if confidenceLevel = Fin 0.90 then Fin t90
       else if confidenceLevel = Fin 0.95 then Fin t95
       else if confidenceLevel = Fin 0.99 then Fin t99
       else Fin t95)"

definition getApproximateTCriticalValue :: "number \<Rightarrow> number \<Rightarrow> error + number" where
  "getApproximateTCriticalValue df confidenceLevel =
    andThen (closestDf df) (\<lambda>closest. Inr (levelEntry (dfEntry closest) confidenceLevel))"

definition getTCriticalValue :: "number \<Rightarrow> number \<Rightarrow> error + number" where
  "getTCriticalValue confidenceLevel degreesOfFreedom =
    getApproximateTCriticalValue degreesOfFreedom confidenceLevel"

text \<open>
  The \<open>switch (confidenceLevel)\<close> that \<open>calculateConfidenceInterval\<close> writes out twice,
  for the known variance and for the large sample: three tabulated levels, and the inverse
  error function for any other level.
\<close>

definition zCriticalValue :: "number \<Rightarrow> number" where
  "zCriticalValue confidenceLevel =
    (if confidenceLevel = Fin 0.90 then Fin 1.645
     else if confidenceLevel = Fin 0.95 then Fin 1.96
     else if confidenceLevel = Fin 0.99 then Fin 2.576
     else let alpha = Fin 1 - confidenceLevel;
              zApprox = Math_sqrt (Fin 2) * inverseErrorFunction (Fin 2 * (Fin 1 - alpha / Fin 2) - Fin 1)
          in \<bar>zApprox\<bar>)"

section \<open>Confidence interval of a mean\<close>

datatype TailType = TwoTailed | LeftTailed | RightTailed

text \<open>
  The options object. The callers (the one-sample panels) pass \<open>tailType\<close> with the other
  options; \<open>calculateConfidenceInterval\<close> reads \<open>isNormal\<close>, \<open>knownVariance\<close> and
  \<open>populationVariance\<close> from it and nothing else.
\<close>

record ciOptions =
  isNormal :: bool
  knownVariance :: bool
  populationVariance :: "number option"
  tailType :: TailType

record interval =
  lower :: number
  upper :: number

record confidenceInterval = interval +
  marginOfError :: number
  methodName :: string
  criticalValue :: number

definition calculateConfidenceInterval ::
  "real list \<Rightarrow> number \<Rightarrow> ciOptions \<Rightarrow> error + confidenceInterval" where
  "calculateConfidenceInterval data confidenceLevel options =
    (if data = [] then Inl EmptyDataError
     else
       let n = length data in
       andThen (calculateMean data) (\<lambda>mean.
       andThen
         (case populationVariance options of
            Some pv \<Rightarrow>
              if knownVariance options then Inr (Math_sqrt pv / Math_sqrt (len data))
              else andThen (calculateStd data) (\<lambda>std. Inr (std / Math_sqrt (len data)))
          | None \<Rightarrow> andThen (calculateStd data) (\<lambda>std. Inr (std / Math_sqrt (len data))))
         (\<lambda>standardError.
       andThen
         (if knownVariance options
          then Inr (zCriticalValue confidenceLevel, ''Z-distribution (known variance)'')
          else if isNormal options \<or> n \<le> 30
          then andThen (getApproximateTCriticalValue (len data - Fin 1) confidenceLevel)
                 (\<lambda>c. Inr (c, ''t distribution (normal, unknown variance)''))
          else Inr (zCriticalValue confidenceLevel,
                    ''Z-distribution (non-normal, large sample, unknown variance)''))
         (\<lambda>(crit, label).
            let marginOfError = crit * standardError;
                lower = mean - marginOfError;
                upper = mean + marginOfError
            in Inr \<lparr>lower = lower, upper = upper, marginOfError = marginOfError,
                     methodName = label, criticalValue = crit\<rparr>))))"


subsection \<open>The backup copy\<close>

text \<open>
  The copy of \<open>calculateConfidenceInterval\<close> kept under \<open>backup/\<close> reads \<open>tailType\<close>: it
  adjusts the critical value of the z distribution and selects the bounds by it. Its t
  table and its inverse error function are those of the statistics utility.
\<close>

definition bk_zCriticalValue :: "TailType \<Rightarrow> number \<Rightarrow> number" where
  "bk_zCriticalValue tail confidenceLevel =
    (let alpha = Fin 1 - confidenceLevel;
         adjustedConfidenceLevel = (if tail = TwoTailed then confidenceLevel else Fin 1 - alpha)
     in if adjustedConfidenceLevel = Fin 0.90 then (if tail = TwoTailed then Fin 1.645 else Fin 1.282)
        else if adjustedConfidenceLevel = Fin 0.95 then (if tail = TwoTailed then Fin 1.96 else Fin 1.645)
        else if adjustedConfidenceLevel = Fin 0.975 then Fin 1.96
        else if adjustedConfidenceLevel = Fin 0.99 then (if tail = TwoTailed then Fin 2.576 else Fin 2.326)
        else if adjustedConfidenceLevel = Fin 0.995 then Fin 2.576
        else let alphaAdjusted = (if tail = TwoTailed then alpha / Fin 2 else alpha);
                 zApprox = Math_sqrt (Fin 2) * inverseErrorFunction (Fin 2 * (Fin 1 - alphaAdjusted) - Fin 1)
             in \<bar>zApprox\<bar>)"

definition bk_calculateConfidenceInterval ::
  "real list \<Rightarrow> number \<Rightarrow> ciOptions \<Rightarrow> error + confidenceInterval" where
  "bk_calculateConfidenceInterval data confidenceLevel options =
    (if data = [] then Inl EmptyDataError
     else
       let n = length data in
       andThen (calculateMean data) (\<lambda>mean.
       andThen
         (case populationVariance options of
            Some pv \<Rightarrow>
              if knownVariance options then Inr (Math_sqrt pv / Math_sqrt (len data))
              else andThen (calculateStd data) (\<lambda>std. Inr (std / Math_sqrt (len data)))
          | None \<Rightarrow> andThen (calculateStd data) (\<lambda>std. Inr (std / Math_sqrt (len data))))
         (\<lambda>standardError.
       andThen
         (if knownVariance options
          then Inr (bk_zCriticalValue (tailType options) confidenceLevel,
                    ''Z-distribution (known variance)'')
          else if isNormal options \<or> n \<le> 30
          then let adjustedConfidenceLevel =
                     (if tailType options = TwoTailed then confidenceLevel
                      else Fin 1 - (Fin 1 - confidenceLevel))
               in andThen (getApproximateTCriticalValue (len data - Fin 1) adjustedConfidenceLevel)
                    (\<lambda>c. Inr (c, ''t distribution (normal, unknown variance)''))
          else Inr (bk_zCriticalValue (tailType options) confidenceLevel,
                    ''Z-distribution (non-normal, large sample, unknown variance)''))
         (\<lambda>(crit, label).
            let marginOfError = crit * standardError;
                bounds = (case tailType options of
                            LeftTailed \<Rightarrow> (NInf, mean + marginOfError)
                          | RightTailed \<Rightarrow> (mean - marginOfError, PInf)
                          | TwoTailed \<Rightarrow> (mean - marginOfError, mean + marginOfError))
            in Inr \<lparr>lower = fst bounds, upper = snd bounds, marginOfError = marginOfError,
                     methodName = label, criticalValue = crit\<rparr>))))"

section \<open>Hypothesis tests\<close>

datatype TestType = Two | Left | Right

definition tCDF :: "number \<Rightarrow> number \<Rightarrow> number" where
  "tCDF x df =
    (if df \<ge> Fin 30 then normalCDF x
     else
       let absX = \<bar>x\<bar>;
           zValue = normalCDF absX;
           correction = Fin 1 / (Fin 4 * df) - Fin 7 / (Fin 96 * df * df)
                        + Fin 127 / (Fin 9216 * df * df * df);
           pApprox = (if x < Fin 0
                      then Fin 1 - zValue + correction * (absX * absX + Fin 1) * (zValue - Fin 0.5)
                      else zValue + correction * (absX * absX + Fin 1) * (Fin 0.5 - zValue))
       in Math_min (Fin 1) (Math_max (Fin 0) pApprox))"

definition calculateTTestPValue :: "number \<Rightarrow> number \<Rightarrow> TestType \<Rightarrow> number" where
  "calculateTTestPValue tValue df tail =
    (case tail of
       Two \<Rightarrow> Fin 2 * Math_min (tCDF tValue df) (Fin 1 - tCDF tValue df)
     | Left \<Rightarrow> tCDF tValue df
     | Right \<Rightarrow> Fin 1 - tCDF tValue df)"

text \<open>The results of the two tests, without their display label (a Chinese sentence that
  names the test and its tail).\<close>

record zTest =
  zt_mean :: number
  zValue :: number
  zt_pValue :: number
  zt_criticalValue :: number
  zt_rejected :: bool
  zt_confidenceInterval :: "interval option"

definition performZTest ::
  "real list \<Rightarrow> number \<Rightarrow> number \<Rightarrow> number \<Rightarrow> TestType \<Rightarrow> error + zTest" where
  "performZTest data mu0 sigma alpha testType =
    (if data = [] then Inl EmptyDataError
     else
       andThen (calculateMean data) (\<lambda>mean.
         let standardError = sigma / Math_sqrt (len data);
             zValue = (mean - mu0) / standardError;
             pValue = (case testType of
                         Left \<Rightarrow> normalCDF zValue
                       | Right \<Rightarrow> Fin 1 - normalCDF zValue
                       | Two \<Rightarrow> Fin 2 * (Fin 1 - normalCDF \<bar>zValue\<bar>));
             crit = (case testType of
                       Left \<Rightarrow> - Math_sqrt (Fin 2) * inverseErrorFunction (Fin 2 * (Fin 1 - alpha) - Fin 1)
                     | Right \<Rightarrow> Math_sqrt (Fin 2) * inverseErrorFunction (Fin 2 * (Fin 1 - alpha) - Fin 1)
                     | Two \<Rightarrow> Math_sqrt (Fin 2) * inverseErrorFunction (Fin 2 * (Fin 1 - alpha / Fin 2) - Fin 1));
             rejected = (case testType of
                           Left \<Rightarrow> zValue \<le> crit
                         | Right \<Rightarrow> zValue \<ge> crit
                         | Two \<Rightarrow> \<bar>zValue\<bar> \<ge> crit);
             zCritical = Math_sqrt (Fin 2) * inverseErrorFunction (Fin 2 * (Fin 1 - alpha / Fin 2) - Fin 1);
             ci = (case testType of
                     Two \<Rightarrow> Some \<lparr>lower = mean - zCritical * standardError,
                                    upper = mean + zCritical * standardError\<rparr>
                   | Left \<Rightarrow> Some \<lparr>lower = NInf, upper = mean + zCritical * standardError\<rparr>
                   | Right \<Rightarrow> Some \<lparr>lower = mean - zCritical * standardError, upper = PInf\<rparr>)
         in Inr \<lparr>zt_mean = mean, zValue = zValue, zt_pValue = pValue, zt_criticalValue = crit,
                  zt_rejected = rejected, zt_confidenceInterval = ci\<rparr>))"

record tTest =
  tt_mean :: number
  tt_std :: number
  tValue :: number
  tt_df :: number
  tt_pValue :: number
  tt_criticalValue :: number
  tt_rejected :: bool
  tt_confidenceInterval :: "interval option"

definition performTTest ::
  "real list \<Rightarrow> number \<Rightarrow> number \<Rightarrow> TestType \<Rightarrow> error + tTest" where
  "performTTest data mu0 alpha testType =
    (if data = [] then Inl EmptyDataError
     else
       andThen (calculateMean data) (\<lambda>mean.
       andThen (calculateStd data) (\<lambda>std.
         let standardError = std / Math_sqrt (len data);
             df = len data - Fin 1;
             tValue = (mean - mu0) / standardError;
             pValue = calculateTTestPValue tValue df testType
         in
       andThen (case testType of
                  Left \<Rightarrow> andThen (getApproximateTCriticalValue df (Fin 1 - alpha)) (\<lambda>c. Inr (- c))
                | Right \<Rightarrow> getApproximateTCriticalValue df (Fin 1 - alpha)
                | Two \<Rightarrow> getApproximateTCriticalValue df (Fin 1 - alpha / Fin 2)) (\<lambda>crit.
         let rejected = (case testType of
                           Left \<Rightarrow> tValue \<le> crit
                         | Right \<Rightarrow> tValue \<ge> crit
                         | Two \<Rightarrow> \<bar>tValue\<bar> \<ge> crit)
         in
       andThen (getApproximateTCriticalValue df (Fin 1 - alpha / Fin 2)) (\<lambda>tCritical.
         let ci = (case testType of
                     Two \<Rightarrow> Some \<lparr>lower = mean - tCritical * standardError,
                                    upper = mean + tCritical * standardError\<rparr>
                   | Left \<Rightarrow> Some \<lparr>lower = NInf, upper = mean + tCritical * standardError\<rparr>
                   | Right \<Rightarrow> Some \<lparr>lower = mean - tCritical * standardError, upper = PInf\<rparr>)
         in Inr \<lparr>tt_mean = mean, tt_std = std, tValue = tValue, tt_df = df, tt_pValue = pValue,
                  tt_criticalValue = crit, tt_rejected = rejected,
                  tt_confidenceInterval = ci\<rparr>)))))"

section \<open>Power and sample size\<close>






section \<open>Parameter estimation\<close>

text \<open>
  The optional \<open>basicStats\<close> of the estimators is untyped: its \<open>mean\<close>, \<open>variance\<close> and
  \<open>std\<close> are read if they are there. A missing object is the object with no field.
\<close>

record estStats =
  es_mean :: "number option"
  es_variance :: "number option"
  es_std :: "number option"

definition optTruthy :: "number option \<Rightarrow> bool" where
  "optTruthy v = (case v of None \<Rightarrow> False | Some a \<Rightarrow> truthy a)"

text \<open>\<open>basicStats?.variance || (basicStats?.std ? basicStats.std * basicStats.std : undefined)\<close>\<close>

definition givenVariance :: "estStats \<Rightarrow> number option" where
  "givenVariance b =
    (if optTruthy (es_variance b) then es_variance b
     else case es_std b of
            Some sd \<Rightarrow> if truthy sd then Some (sd * sd) else None
          | None \<Rightarrow> None)"

text \<open>The sample moments that every branch recomputes when one of the given ones is falsy.\<close>

definition sampleMean :: "real list \<Rightarrow> number" where
  "sampleMean data = sumOf Fin data / len data"

definition sampleVariance :: "real list \<Rightarrow> number \<Rightarrow> number" where
  "sampleVariance data mean = sumOf (\<lambda>val. Math_pow (Fin val - mean) 2) data / len data"

text \<open>\<open>if (!mean || !variance) { mean = ...; variance = ... }\<close>\<close>

definition meanAndVariance :: "real list \<Rightarrow> estStats \<Rightarrow> number \<times> number" where
  "meanAndVariance data b =
    (case (es_mean b, givenVariance b) of
       (Some m, Some v) \<Rightarrow>
         if truthy m \<and> truthy v then (m, v)
         else (sampleMean data, sampleVariance data (sampleMean data))
     | _ \<Rightarrow> (sampleMean data, sampleVariance data (sampleMean data)))"

text \<open>\<open>if (!mean) { mean = ... }\<close>\<close>

definition meanOnly :: "real list \<Rightarrow> estStats \<Rightarrow> number" where
  "meanOnly data b =
    (case es_mean b of
       Some m \<Rightarrow> if truthy m then m else sampleMean data
     | None \<Rightarrow> sampleMean data)"

text \<open>\<open>Math.min(...data)\<close> and \<open>Math.max(...data)\<close>.\<close>

definition arrMin :: "real list \<Rightarrow> number" where
  "arrMin data = foldl (\<lambda>m v. Math_min m (Fin v)) PInf data"

definition arrMax :: "real list \<Rightarrow> number" where
  "arrMax data = foldl (\<lambda>m v. Math_max m (Fin v)) NInf data"

definition calculateMLE :: "real list \<Rightarrow> string \<Rightarrow> estStats \<Rightarrow> error + (string \<times> number) list" where
  "calculateMLE data distType b =
    (if distType = ''normal'' then
       (case meanAndVariance data b of (mean, variance) \<Rightarrow>
          let std = Math_sqrt variance in Inr [(''mean'', mean), (''std'', std)])
     else if distType = ''uniform'' then
       Inr [(''a'', arrMin data), (''b'', arrMax data)]
     else if distType = ''exponential'' then
       Inr [(''lambda'', Fin 1 / meanOnly data b)]
     else if distType = ''poisson'' then
       Inr [(''lambda'', meanOnly data b)]
     else if distType = ''gamma'' then
       (case meanAndVariance data b of (mean, variance) \<Rightarrow>
          Inr [(''shape'', Math_max (Fin 0.001) (Math_pow mean 2 / variance)),
               (''scale'', variance / mean)])
     else if distType = ''beta'' then
       (case meanAndVariance data b of (mean, variance) \<Rightarrow>
          let s = (mean * (Fin 1 - mean) / variance) - Fin 1
          in Inr [(''alpha'', mean * s), (''beta'', (Fin 1 - mean) * s)])
     else Inl UnsupportedDistributionError)"

definition calculateMoM :: "real list \<Rightarrow> string \<Rightarrow> estStats \<Rightarrow> error + (string \<times> number) list" where
  "calculateMoM data distType b =
    (if distType = ''normal'' then
       (case meanAndVariance data b of (mean, variance) \<Rightarrow>
          let std = Math_sqrt variance in Inr [(''mean'', mean), (''std'', std)])
     else if distType = ''uniform'' then
       (case meanAndVariance data b of (mean, variance) \<Rightarrow>
          let range = Math_sqrt (Fin 12 * variance)
          in Inr [(''a'', mean - range / Fin 2), (''b'', mean + range / Fin 2)])
     else if distType = ''exponential'' then
       Inr [(''lambda'', Fin 1 / meanOnly data b)]
     else if distType = ''poisson'' then
       Inr [(''lambda'', meanOnly data b)]
     else if distType = ''gamma'' then
       (case meanAndVariance data b of (mean, variance) \<Rightarrow>
          Inr [(''shape'', Math_max (Fin 0.001) (Math_pow mean 2 / variance)),
               (''scale'', variance / mean)])
     else if distType = ''beta'' then
       (case meanAndVariance data b of (mean, variance) \<Rightarrow>
          let s = (mean * (Fin 1 - mean) / variance) - Fin 1
          in Inr [(''alpha'', mean * s), (''beta'', (Fin 1 - mean) * s)])
     else Inl UnsupportedDistributionError)"

section \<open>Paired and two-sample intervals\<close>

definition calculateDifferences :: "real list \<Rightarrow> real list \<Rightarrow> error + real list" where
  "calculateDifferences before after =
    (if length before \<noteq> length after then Inl LengthMismatchError
     else Inr (map (\<lambda>(val, a). a - val) (zip before after)))"

record pairedMeanCI =
  meanDifference :: number
  standardError :: number
  pm_marginOfError :: number
  lowerBound :: number
  upperBound :: number
  pm_methodName :: string

definition calculatePairedMeanCI :: "real list \<Rightarrow> real list \<Rightarrow> number \<Rightarrow> error + pairedMeanCI" where
  "calculatePairedMeanCI before after confidenceLevel =
    andThen (calculateDifferences before after) (\<lambda>differences.
    andThen (calculateMean differences) (\<lambda>meanDifference.
    andThen (calculateStdDev differences) (\<lambda>stdDevDifference.
      let standardError = stdDevDifference / Math_sqrt (len differences);
          degreesOfFreedom = len differences - Fin 1
      in
    andThen (getTCriticalValue confidenceLevel degreesOfFreedom) (\<lambda>tCritical.
      let marginOfError = tCritical * standardError
      in Inr \<lparr>meanDifference = meanDifference, standardError = standardError,
               pm_marginOfError = marginOfError,
               lowerBound = meanDifference - marginOfError,
               upperBound = meanDifference + marginOfError,
               pm_methodName = ''Paired t-test''\<rparr>))))"

text \<open>
  \<open>calculateTwoSampleConfidenceInterval\<close>: the option \<open>method\<close> defaults to Welch's
  interval. The result's label is a Chinese name of the method; the method itself stands
  for it.
\<close>

datatype sampleMethod = Pooled | Welch | Paired

record twoSampleCI = interval +
  ts_marginOfError :: number
  ts_methodName :: sampleMethod
  ts_criticalValue :: number
  meanDiff :: number

definition calculateTwoSampleConfidenceInterval ::
  "real list \<Rightarrow> real list \<Rightarrow> number \<Rightarrow> sampleMethod option \<Rightarrow> error + twoSampleCI" where
  "calculateTwoSampleConfidenceInterval data1 data2 confidenceLevel methodOption =
    (if data1 = [] \<or> data2 = [] then Inl EmptyDataError
     else
       let chosen = (case methodOption of Some m \<Rightarrow> m | None \<Rightarrow> Welch);
           n1 = len data1;
           n2 = len data2
       in
       andThen (calculateMean data1) (\<lambda>mean1.
       andThen (calculateMean data2) (\<lambda>mean2.
         let meanDiff = mean1 - mean2 in
       andThen
         (case chosen of
            Paired \<Rightarrow>
              if length data1 \<noteq> length data2 then Inl LengthMismatchError
              else
                let differences = map (\<lambda>(x, y). x - y) (zip data1 data2) in
                andThen (calculateStd differences) (\<lambda>stdDiff.
                andThen (getApproximateTCriticalValue (n1 - Fin 1) confidenceLevel) (\<lambda>crit.
                  Inr (crit, stdDiff / Math_sqrt n1)))
          | Pooled \<Rightarrow>
              andThen (calculateVariance data1) (\<lambda>var1.
              andThen (calculateVariance data2) (\<lambda>var2.
                let pooledVar = ((n1 - Fin 1) * var1 + (n2 - Fin 1) * var2) / (n1 + n2 - Fin 2) in
              andThen (getApproximateTCriticalValue (n1 + n2 - Fin 2) confidenceLevel) (\<lambda>crit.
                Inr (crit, Math_sqrt (pooledVar * (Fin 1 / n1 + Fin 1 / n2))))))
          | Welch \<Rightarrow>
              andThen (calculateVariance data1) (\<lambda>var1.
              andThen (calculateVariance data2) (\<lambda>var2.
                let numerator = Math_pow (var1 / n1 + var2 / n2) 2;
                    denominator = Math_pow var1 2 / (Math_pow n1 2 * (n1 - Fin 1))
                                  + Math_pow var2 2 / (Math_pow n2 2 * (n2 - Fin 1));
                    df = Math_floor (numerator / denominator)
                in
              andThen (getApproximateTCriticalValue df confidenceLevel) (\<lambda>crit.
                Inr (crit, Math_sqrt (var1 / n1 + var2 / n2))))))
         (\<lambda>(crit, standardError).
            let marginOfError = crit * standardError
            in Inr \<lparr>lower = meanDiff - marginOfError, upper = meanDiff + marginOfError,
                     ts_marginOfError = marginOfError, ts_methodName = chosen,
                     ts_criticalValue = crit, meanDiff = meanDiff\<rparr>))))"


section \<open>Chi-square goodness of fit\<close>

text \<open>
  The parameters of a test are an object from names to numbers: a list of pairs with
  distinct names. \<open>orElse (param ps name) d\<close> is \<open>parameters.name || d\<close>.
\<close>

definition param :: "(string \<times> number) list \<Rightarrow> string \<Rightarrow> number option" where
  "param ps name = map_of ps name"

definition orElse :: "number option \<Rightarrow> number \<Rightarrow> number" where
  "orElse v d = (case v of Some a \<Rightarrow> if truthy a then a else d | None \<Rightarrow> d)"

subsection \<open>The goodness-of-fit module\<close>

text \<open>Its own mean (0 on no data) and standard deviation (divisor \<open>n - 1\<close>, 0 up to one
  value).\<close>

definition gof_calculateMean :: "real list \<Rightarrow> number" where
  "gof_calculateMean data = (if data = [] then Fin 0 else sumOf Fin data / len data)"

definition gof_calculateStd :: "real list \<Rightarrow> number" where
  "gof_calculateStd data =
    (if length data \<le> 1 then Fin 0
     else let mean = gof_calculateMean data;
              variance = sumOf (\<lambda>val. Math_pow (Fin val - mean) 2) data / (len data - Fin 1)
          in Math_sqrt variance)"

text \<open>
  \<open>xs[j] += v\<close> where \<open>j\<close> is at most the length: at the length the element read is
  \<open>undefined\<close>, the sum is \<open>NaN\<close>, and the write extends the array by one element.
  \<open>removeAt xs i\<close> is \<open>xs.splice(i, 1)\<close>.
\<close>

definition addAt :: "number list \<Rightarrow> nat \<Rightarrow> number \<Rightarrow> number list" where
  "addAt xs j v = (if j < length xs then xs[j := xs ! j + v] else xs @ [NaN])"

definition removeAt :: "'a list \<Rightarrow> nat \<Rightarrow> 'a list" where
  "removeAt xs i = take i xs @ drop (Suc i) xs"

text \<open>The bin of a value: the first bin that holds it; the last bin includes its end.\<close>

definition inBin :: "(number \<times> number) list \<Rightarrow> nat \<Rightarrow> real \<Rightarrow> nat \<Rightarrow> bool" where
  "inBin bins numBins v i =
    (if i = numBins - 1
     then Fin v \<ge> fst (bins ! i) \<and> Fin v \<le> snd (bins ! i)
     else Fin v \<ge> fst (bins ! i) \<and> Fin v < snd (bins ! i))"

definition countValue :: "(number \<times> number) list \<Rightarrow> nat \<Rightarrow> number list \<Rightarrow> real \<Rightarrow> number list" where
  "countValue bins numBins obs v =
    (case find (inBin bins numBins v) [0..<numBins] of
       Some i \<Rightarrow> obs[i := obs ! i + Fin 1]
     | None \<Rightarrow> obs)"

text \<open>
  The loop that merges the bins whose expected frequency is below 5: the first bin into
  the second, any other into the one before it. The three arrays are spliced together.
\<close>

function mergeBins ::
  "nat \<Rightarrow> number list \<Rightarrow> number list \<Rightarrow> (number \<times> number) list
     \<Rightarrow> number list \<times> number list \<times> (number \<times> number) list" where
  "mergeBins i es os bs =
    (if i < length es then
       (if es ! i < Fin 5 then
          (if i = 0 then
             mergeBins i (removeAt (addAt es (i + 1) (es ! i)) i)
                         (removeAt (addAt os (i + 1) (os ! i)) i)
                         (removeAt bs i)
           else
             mergeBins i (removeAt (es[i - 1 := es ! (i - 1) + es ! i]) i)
                         (removeAt (os[i - 1 := os ! (i - 1) + os ! i]) i)
                         (removeAt (bs[i - 1 := (fst (bs ! (i - 1)), snd (bs ! i))]) i))
        else mergeBins (i + 1) es os bs)
     else (es, os, bs))"
  by pat_completeness auto
termination
proof (relation "measures [\<lambda>(i, es, os, bs). length es - i,
                           \<lambda>(i, es, os, bs). if es ! i < Fin 5 then 1 else 0]")
  show "wf (measures [\<lambda>(i, es, os, bs). length es - i,
                      \<lambda>(i::nat, es::number list, os::number list, bs::(number \<times> number) list).
                         if es ! i < Fin 5 then 1 else 0])"
    by simp
next
  fix i :: nat and es os :: "number list" and bs :: "(number \<times> number) list"
  assume a: "i < length es" "es ! i < Fin 5" "i = 0"
  show "((i, removeAt (addAt es (i + 1) (es ! i)) i, removeAt (addAt os (i + 1) (os ! i)) i,
          removeAt bs i), i, es, os, bs)
        \<in> measures [\<lambda>(i, es, os, bs). length es - i,
                     \<lambda>(i, es, os, bs). if es ! i < Fin 5 then 1 else 0]"
  proof (cases "1 < length es")
    case True
    with a show ?thesis by (simp add: removeAt_def addAt_def)
  next
    case False
    with a obtain e where "es = [e]" by (cases es) auto
    with a show ?thesis by (simp add: removeAt_def addAt_def)
  qed
next
  fix i :: nat and es os :: "number list" and bs :: "(number \<times> number) list"
  assume a: "i < length es" "es ! i < Fin 5" "i \<noteq> 0"
  then have "length es - Suc i < length es - i" by arith
  with a show "((i, removeAt (es[i - 1 := es ! (i - 1) + es ! i]) i,
               removeAt (os[i - 1 := os ! (i - 1) + os ! i]) i,
               removeAt (bs[i - 1 := (fst (bs ! (i - 1)), snd (bs ! i))]) i), i, es, os, bs)
             \<in> measures [\<lambda>(i, es, os, bs). length es - i,
                          \<lambda>(i, es, os, bs). if es ! i < Fin 5 then 1 else 0]"
    by (simp add: removeAt_def)
next
  fix i :: nat and es os :: "number list" and bs :: "(number \<times> number) list"
  assume "i < length es" "\<not> es ! i < Fin 5"
  then show "((i + 1, es, os, bs), i, es, os, bs)
             \<in> measures [\<lambda>(i, es, os, bs). length es - i,
                          \<lambda>(i, es, os, bs). if es ! i < Fin 5 then 1 else 0]"
    by simp
qed

declare mergeBins.simps [simp del]

text \<open>The expected frequencies of the three families the module supports.\<close>

definition gof_expected ::
  "real list \<Rightarrow> string \<Rightarrow> (string \<times> number) list \<Rightarrow> nat \<Rightarrow> (number \<times> number) list
     \<Rightarrow> number \<Rightarrow> number \<Rightarrow> number \<Rightarrow> error + number list" where
  "gof_expected data distributionType parameters numBins bins mn mx binWidth =
    (let n = len data in
     if distributionType = ''normal'' then
       let mean = orElse (param parameters ''mean'') (gof_calculateMean data);
           std = orElse (param parameters ''std'') (gof_calculateStd data)
       in Inr (map (\<lambda>i. let lo = (fst (bins ! i) - mean) / std;
                             hi = (snd (bins ! i) - mean) / std;
                             probability = normalCDF hi - normalCDF lo
                         in n * probability) [0..<numBins])
     else if distributionType = ''uniform'' then
       let a = orElse (param parameters ''a'') mn;
           b = orElse (param parameters ''b'') mx;
           binProbability = binWidth / (b - a)
       in Inr (map (\<lambda>i. n * binProbability) [0..<numBins])
     else if distributionType = ''exponential'' then
       let lambda = orElse (param parameters ''lambda'') (Fin 1 / gof_calculateMean data)
       in Inr (map (\<lambda>i. let lo = Math_max (fst (bins ! i)) (Fin 0);
                             hi = Math_max (snd (bins ! i)) (Fin 0);
                             probability = (Fin 1 - Math_exp (- lambda * hi))
                                           - (Fin 1 - Math_exp (- lambda * lo))
                         in n * probability) [0..<numBins])
     else Inl UnsupportedDistributionError)"

record gofChiSquare =
  gc_statistic :: number
  gc_degreesOfFreedom :: number
  observedFrequencies :: "number list"
  expectedFrequencies :: "number list"
  gc_bins :: "(number \<times> number) list"

text \<open>The number of bins is the length of an array (\<open>new Array(numBins)\<close>): a natural
  number.\<close>

definition gof_calculateChiSquareTest ::
  "real list \<Rightarrow> string \<Rightarrow> (string \<times> number) list \<Rightarrow> nat \<Rightarrow> error + gofChiSquare" where
  "gof_calculateChiSquareTest data distributionType parameters numBins =
    (let mn = arrMin data;
         mx = arrMax data;
         binWidth = (mx - mn) / Fin (real numBins);
         bins = map (\<lambda>i. (mn + Fin (real i) * binWidth, mn + (Fin (real i) + Fin 1) * binWidth))
                    [0..<numBins];
         observed = foldl (countValue bins numBins) (replicate numBins (Fin 0)) data
     in andThen (gof_expected data distributionType parameters numBins bins mn mx binWidth)
          (\<lambda>expected.
             case mergeBins 0 expected observed bins of (es, os, bs) \<Rightarrow>
               let chiSquareStatistic =
                     foldl (\<lambda>acc (ob, ex). if ex > Fin 0
                                            then acc + ((ob - ex) * (ob - ex)) / ex else acc)
                           (Fin 0) (zip os es);
                   numParameters = (if distributionType = ''normal'' then Fin 2 else Fin 1);
                   degreesOfFreedom = len es - Fin 1 - numParameters
               in Inr \<lparr>gc_statistic = chiSquareStatistic, gc_degreesOfFreedom = degreesOfFreedom,
                        observedFrequencies = os, expectedFrequencies = es, gc_bins = bs\<rparr>))"


subsection \<open>The statistics utility\<close>

text \<open>
  The cumulative distribution functions that \<open>calculateChiSquareTest\<close> calls for the
  Poisson, gamma and binomial families and for its p-value are iterative routines of the
  same file; the test is modelled for any such routines.
\<close>

record numerics =
  poissonCDF :: "number \<Rightarrow> number \<Rightarrow> number"
  gammaCDF :: "number \<Rightarrow> number \<Rightarrow> number \<Rightarrow> number"
  binomialCDF :: "number \<Rightarrow> number \<Rightarrow> number \<Rightarrow> number"
  chiSquareCDF :: "number \<Rightarrow> number \<Rightarrow> number"

text \<open>\<open>parameters.name || f(data)\<close>, where the call on the right may throw and is made
  only when the parameter is falsy.\<close>

definition orElseCall :: "number option \<Rightarrow> error + number \<Rightarrow> error + number" where
  "orElseCall v d = (case v of Some a \<Rightarrow> if truthy a then Inr a else d | None \<Rightarrow> d)"

fun collect :: "(nat \<Rightarrow> error + 'a) \<Rightarrow> nat list \<Rightarrow> error + 'a list" where
  "collect f [] = Inr []"
| "collect f (i # rest) = andThen (f i) (\<lambda>x. andThen (collect f rest) (\<lambda>xs. Inr (x # xs)))"

text \<open>
  \<open>Number.EPSILON\<close> is \<open>2\<^sup>-\<^sup>5\<^sup>2\<close>. The upper bound of the last bin is \<open>max + Number.EPSILON\<close>. In
  double precision this sum is a number above \<open>max\<close> for \<open>1 \<le> max < 2\<close>, where the
  spacing of the doubles is \<open>Number.EPSILON\<close>; for \<open>\<bar>max\<bar> \<ge> 4\<close> it rounds back to \<open>max\<close>,
  and the values equal to the maximum are then in no bin. The model keeps the exact sum,
  which is the sum of the program for \<open>1 \<le> max < 2\<close>; it is evaluated below on a sample
  whose maximum is 1.
\<close>

definition EPSILON :: real where
  "EPSILON = 1 / 2 ^ 52"

record csBin =
  bin_min :: number
  bin_max :: number
  observed :: number
  expected :: number

definition cs_expected ::
  "numerics \<Rightarrow> real list \<Rightarrow> string \<Rightarrow> (string \<times> number) list \<Rightarrow> nat
     \<Rightarrow> number \<Rightarrow> number \<Rightarrow> number \<Rightarrow> number \<Rightarrow> error + number" where
  "cs_expected nm data distributionType parameters numBins mn mx binMin binMax =
    (let n = len data in
     if distributionType = ''normal'' then
       andThen (orElseCall (param parameters ''mean'') (calculateMean data)) (\<lambda>mean.
       andThen (orElseCall (param parameters ''std'') (calculateStd data)) (\<lambda>std.
         let cdfMax = normalCDF ((binMax - mean) / std);
             cdfMin = normalCDF ((binMin - mean) / std)
         in Inr (n * (cdfMax - cdfMin))))
     else if distributionType = ''exponential'' then
       andThen (orElseCall (param parameters ''lambda'')
                  (andThen (calculateMean data) (\<lambda>m. Inr (Fin 1 / m)))) (\<lambda>lambda.
         let cdfMax = Fin 1 - Math_exp (- lambda * binMax);
             cdfMin = Fin 1 - Math_exp (- lambda * binMin)
         in Inr (n * (cdfMax - cdfMin)))
     else if distributionType = ''uniform'' then
       let a = orElse (param parameters ''a'') mn;
           b = orElse (param parameters ''b'') mx;
           cdfMax = (binMax - a) / (b - a);
           cdfMin = (binMin - a) / (b - a)
       in Inr (n * Math_max (Fin 0) (Math_min (Fin 1) cdfMax - Math_max (Fin 0) cdfMin))
     else if distributionType = ''poisson'' then
       let lambda = orElse (param parameters ''lambda'') (Fin 1);
           cdfMax = poissonCDF nm (Math_floor binMax) lambda;
           cdfMin = poissonCDF nm (Math_floor binMin - Fin 1) lambda
       in Inr (n * (cdfMax - cdfMin))
     else if distributionType = ''gamma'' then
       let shape = orElse (param parameters ''shape'') (Fin 1);
           rate = orElse (param parameters ''rate'') (Fin 1);
           cdfMax = gammaCDF nm binMax shape rate;
           cdfMin = gammaCDF nm binMin shape rate
       in Inr (n * (cdfMax - cdfMin))
     else if distributionType = ''binomial'' then
       let n_params = orElse (param parameters ''n'') (Fin 10);
           p = orElse (param parameters ''p'') (Fin 0.5);
           kMin = Math_floor binMin;
           kMax = Math_floor binMax;
           cdfMax_val = binomialCDF nm (Math_min n_params kMax) n_params p;
           cdfMin_val = binomialCDF nm (Math_max (Fin 0) (kMin - Fin 1)) n_params p
       in Inr (n * (cdfMax_val - cdfMin_val))
     else Inr (n / Fin (real numBins)))"

record chiSquare =
  cs_statistic :: number
  cs_pValue :: number
  cs_degreesOfFreedom :: number
  cs_bins :: "csBin list"

text \<open>\<open>sortedData[0]\<close> and \<open>sortedData[n - 1]\<close> are \<open>undefined\<close> on no data; in the
  arithmetic and the comparisons that follow \<open>undefined\<close> behaves as \<open>NaN\<close>.\<close>

definition calculateChiSquareTest ::
  "numerics \<Rightarrow> real list \<Rightarrow> string \<Rightarrow> (string \<times> number) list \<Rightarrow> nat \<Rightarrow> error + chiSquare" where
  "calculateChiSquareTest nm data distributionType parameters numBins =
    (let n = len data;
         sortedData = sort data;
         mn = (if sortedData = [] then NaN else Fin (hd sortedData));
         mx = (if sortedData = [] then NaN else Fin (last sortedData));
         binWidth = (mx - mn) / Fin (real numBins)
     in andThen
          (collect (\<lambda>i.
             let binMin = mn + Fin (real i) * binWidth;
                 binMax = (if i = numBins - 1 then mx + Fin EPSILON else binMin + binWidth);
                 observed = len (filter (\<lambda>val. Fin val \<ge> binMin \<and> Fin val < binMax) data)
             in andThen (cs_expected nm data distributionType parameters numBins mn mx binMin binMax)
                  (\<lambda>expected. Inr \<lparr>bin_min = binMin, bin_max = binMax, observed = observed,
                                     expected = expected\<rparr>))
             [0..<numBins])
          (\<lambda>bins.
             let validBins = filter (\<lambda>bin. expected bin \<ge> Fin 5) bins;
                 mergedBins = (if length validBins < 5 then bins else validBins);
                 estimatedParams = len parameters;
                 df = len mergedBins - Fin 1 - estimatedParams;
                 chiSquareStat =
                   foldl (\<lambda>acc bin. if expected bin > Fin 0
                                      then acc + Math_pow (observed bin - expected bin) 2 / expected bin
                                      else acc)
                         (Fin 0) mergedBins;
                 pValue = Fin 1 - chiSquareCDF nm chiSquareStat df
             in Inr \<lparr>cs_statistic = chiSquareStat, cs_pValue = Math_max pValue (Fin 0),
                      cs_degreesOfFreedom = df, cs_bins = mergedBins\<rparr>))"

section \<open>Closed forms\<close>

text \<open>The mean and the population variance of a sample, as real numbers: what
  \<open>calculateMean\<close> and \<open>calculateVariance\<close> return on a sample that is not empty.\<close>

definition meanR :: "real list \<Rightarrow> real" where
  "meanR data = sum_list data / real (length data)"

definition varR :: "real list \<Rightarrow> real" where
  "varR data = (\<Sum>v\<leftarrow>data. (v - meanR data)\<^sup>2) / real (length data)"

text \<open>
  The error function and the distribution function on a finite argument, as real
  functions: the polynomial in \<open>t\<close>, the complement \<open>1 - y\<close> for a non-negative argument,
  and the two results.
\<close>

definition erfPoly :: "real \<Rightarrow> real" where
  "erfPoly t = ((((1.061405429 * t + (- 1.453152027)) * t + 1.421413741) * t + (- 0.284496736)) * t + 0.254829592) * t"

definition erfcR :: "real \<Rightarrow> real" where
  "erfcR y = erfPoly (1 / (1 + 0.3275911 * y)) * exp (- y * y)"

definition erfR :: "real \<Rightarrow> real" where
  "erfR x = (if 0 \<le> x then 1 else - 1) * (1 - erfcR \<bar>x\<bar>)"

definition normalCDFR :: "real \<Rightarrow> real" where
  "normalCDFR x = 0.5 * (1 + erfR (x / sqrt 2))"

text \<open>The width \<open>upper - lower\<close> and the margin of error of the interval that
  \<open>calculateConfidenceInterval\<close> returns (\<open>NaN\<close> where it throws).\<close>

definition ciWidth :: "real list \<Rightarrow> number \<Rightarrow> ciOptions \<Rightarrow> number" where
  "ciWidth data level options =
    (case calculateConfidenceInterval data level options of
       Inr r \<Rightarrow> upper r - lower r
     | Inl e \<Rightarrow> NaN)"

definition ciMargin :: "real list \<Rightarrow> number \<Rightarrow> ciOptions \<Rightarrow> number" where
  "ciMargin data level options =
    (case calculateConfidenceInterval data level options of
       Inr r \<Rightarrow> marginOfError r
     | Inl e \<Rightarrow> NaN)"

text \<open>
  The companion interval of a test as the code builds it from the mean and the margin
  \<open>critical value * standard error\<close>: two-sided for a two-sided test, unbounded below for
  a left-tailed and unbounded above for a right-tailed test.
\<close>

definition companionInterval :: "TestType \<Rightarrow> number \<Rightarrow> number \<Rightarrow> interval" where
  "companionInterval testType mean margin =
    (case testType of
       Two \<Rightarrow> \<lparr>lower = mean - margin, upper = mean + margin\<rparr>
     | Left \<Rightarrow> \<lparr>lower = NInf, upper = mean + margin\<rparr>
     | Right \<Rightarrow> \<lparr>lower = mean - margin, upper = PInf\<rparr>)"

text \<open>A sample of 40 values between 0 and 1: one 0 and thirty-nine times 1.\<close>

definition sample40 :: "real list" where
  "sample40 = 0 # replicate 39 1"


section \<open>Facts about the arithmetic\<close>

lemma andThen_Inl [simp]: "andThen (Inl e) f = Inl e"
  by (simp add: andThen_def)

lemma andThen_Inr [simp]: "andThen (Inr v) f = f v"
  by (simp add: andThen_def)

lemma minus_Fin [simp]: "Fin x - Fin y = Fin (x - y)"
  by (simp add: minus_number_def)

lemma minus_NaN [simp]: "a - NaN = NaN" "NaN - a = NaN"
  by (cases a; simp add: minus_number_def)+

lemma plus_NaN [simp]: "a + NaN = NaN"
  by (cases a) simp_all

lemma times_NaN [simp]: "a * NaN = NaN"
  by (cases a) simp_all

lemma divide_NaN [simp]: "a / NaN = NaN"
  by (cases a) simp_all

lemma neg_neg [simp]: "- (- a) = (a::number)"
  by (cases a) simp_all

lemma exp_lower_117: "(10000 / 3111 :: real) \<le> exp (117 / 100)"
proof -
  have "1 + (117 / 1600) + (117 / 1600 :: real)\<^sup>2 / 2 \<le> exp (117 / 1600)"
    by (rule exp_lower_Taylor_quadratic) simp
  then have "(1 + (117 / 1600) + (117 / 1600 :: real)\<^sup>2 / 2) ^ 16 \<le> exp (117 / 1600) ^ 16"
    by (intro power_mono) simp_all
  moreover have "exp (117 / 1600 :: real) ^ 16 = exp (117 / 100)"
    by (simp flip: exp_of_nat_mult)
  moreover have "(10000 / 3111 :: real) \<le> (1 + (117 / 1600) + (117 / 1600)\<^sup>2 / 2) ^ 16"
    by (simp add: power2_eq_square power_divide)
  ultimately show ?thesis by linarith
qed

lemma exp_upper_667: "exp (667 / 1000 :: real) < 2"
proof -
  have "exp (667 / 16000 :: real) \<le> 1 + (667 / 16000) + (667 / 16000)\<^sup>2"
    by (rule exp_bound) simp_all
  then have "exp (667 / 16000 :: real) ^ 16 \<le> (1 + (667 / 16000) + (667 / 16000)\<^sup>2) ^ 16"
    by (intro power_mono) simp_all
  moreover have "exp (667 / 16000 :: real) ^ 16 = exp (667 / 1000)"
    by (simp flip: exp_of_nat_mult)
  moreover have "(1 + (667 / 16000) + (667 / 16000 :: real)\<^sup>2) ^ 16 < 2"
    by (simp add: power2_eq_square power_divide)
  ultimately show ?thesis by linarith
qed

lemma ln_lower_3111: "- (117 / 100) \<le> ln (3111 / 10000 :: real)"
proof -
  have "ln (10000 / 3111 :: real) \<le> ln (exp (117 / 100))"
    using exp_lower_117 by (subst ln_le_cancel_iff) simp_all
  then have "ln (10000 / 3111 :: real) \<le> 117 / 100" by simp
  moreover have "ln (3111 / 10000 :: real) = - ln (10000 / 3111)"
  proof -
    have "(3111 / 10000 :: real) = inverse (10000 / 3111)" by simp
    then show ?thesis by (simp only: ln_inverse)
  qed
  ultimately show ?thesis by linarith
qed

lemma ln_two_lower: "667 / 1000 < ln (2 :: real)"
proof -
  have "ln (exp (667 / 1000 :: real)) < ln 2"
    using exp_upper_667 by (subst ln_less_cancel_iff) simp_all
  then show ?thesis by simp
qed

text \<open>The argument of the square root in the inverse error function is negative up to
  0.83.\<close>

lemma sqrtArg_negative:
  fixes x :: real
  assumes "\<bar>x\<bar> \<le> 83 / 100"
  shows "0 < 1 - \<bar>x\<bar> * \<bar>x\<bar>"
    and "- ln (1 - \<bar>x\<bar> * \<bar>x\<bar>) - 2 * ln 2 - 0.140012 * ln (1 - \<bar>x\<bar> * \<bar>x\<bar>) < 0"
proof -
  have sq: "\<bar>x\<bar> * \<bar>x\<bar> \<le> (83 / 100) * (83 / 100)"
    using assms by (intro mult_mono) simp_all
  then have lo: "3111 / 10000 \<le> 1 - \<bar>x\<bar> * \<bar>x\<bar>" by simp
  then show pos: "0 < 1 - \<bar>x\<bar> * \<bar>x\<bar>" by linarith
  have "ln (3111 / 10000 :: real) \<le> ln (1 - \<bar>x\<bar> * \<bar>x\<bar>)"
    using lo pos by (subst ln_le_cancel_iff) simp_all
  then have "- ln (1 - \<bar>x\<bar> * \<bar>x\<bar>) \<le> 117 / 100"
    using ln_lower_3111 by linarith
  then show "- ln (1 - \<bar>x\<bar> * \<bar>x\<bar>) - 2 * ln 2 - 0.140012 * ln (1 - \<bar>x\<bar> * \<bar>x\<bar>) < 0"
    using ln_two_lower by simp
qed

lemma inverseErrorFunction_NaN:
  assumes "\<bar>x\<bar> \<le> 83 / 100"
  shows "inverseErrorFunction (Fin x) = NaN"
  using sqrtArg_negative [OF assms] assms
  by (simp add: inverseErrorFunction_def Let_def)

lemma pa_inverseErrorFunction_Inf:
  assumes "\<bar>x\<bar> \<le> 83 / 100"
  shows "pa_inverseErrorFunction (Fin x) = (if 0 \<le> x then PInf else NInf)"
  using sqrtArg_negative [OF assms] assms
  by (simp add: pa_inverseErrorFunction_def Let_def)

section \<open>The error function\<close>

lemma den_pos: "1 + 0.3275911 * \<bar>x::real\<bar> \<noteq> 0"
proof -
  have "0 \<le> 0.3275911 * \<bar>x\<bar>" by simp
  then show ?thesis by linarith
qed

lemma erf_Fin:
  "erf (Fin x) =
     Fin ((if 0 \<le> x then 1 else - 1) *
          (1 - (((((1.061405429 * (1 / (1 + 0.3275911 * \<bar>x\<bar>)) + (- 1.453152027)) * (1 / (1 + 0.3275911 * \<bar>x\<bar>))) + 1.421413741) * (1 / (1 + 0.3275911 * \<bar>x\<bar>)) + (- 0.284496736)) * (1 / (1 + 0.3275911 * \<bar>x\<bar>)) + 0.254829592) * (1 / (1 + 0.3275911 * \<bar>x\<bar>)) * exp (- \<bar>x\<bar> * \<bar>x\<bar>)))"
  using den_pos [of x]
  by (simp add: erf_def Let_def del: One_nat_def)

lemma erf_zero: "erf (Fin 0) = Fin (1 / 1000000000)"
  by (simp add: erf_Fin)

lemma normalCDF_zero: "normalCDF (Fin 0) = Fin (1000000001 / 2000000000)"
  by (simp add: normalCDF_def erf_zero)

lemma erf_odd: "x \<noteq> 0 \<Longrightarrow> erf (Fin (- x)) = - erf (Fin x)"
  unfolding erf_Fin by (cases "0 \<le> x") simp_all


section \<open>Descriptive statistics on a sample that is not empty\<close>

lemma Math_pow_Fin [simp]: "Math_pow (Fin x) k = Fin (x ^ k)"
  by (induction k) simp_all

lemma foldl_Fin: "foldl (\<lambda>acc val. acc + Fin (g val)) (Fin a) data = Fin (a + (\<Sum>v\<leftarrow>data. g v))"
  by (induction data arbitrary: a) (simp_all add: add.assoc)

lemma sumOf_Fin: "sumOf (\<lambda>v. Fin (g v)) data = Fin (\<Sum>v\<leftarrow>data. g v)"
  by (simp add: sumOf_def foldl_Fin)

lemma sumOf_Fin_id: "sumOf Fin data = Fin (sum_list data)"
  using sumOf_Fin [of "\<lambda>v. v" data] by simp

lemma div_len: "data \<noteq> [] \<Longrightarrow> Fin x / len data = Fin (x / real (length data))"
  by (simp add: len_def)

lemma calculateMean_Fin: "data \<noteq> [] \<Longrightarrow> calculateMean data = Inr (Fin (meanR data))"
  by (simp add: calculateMean_def sumOf_Fin_id div_len meanR_def)

lemma calculateVariance_Fin: "data \<noteq> [] \<Longrightarrow> calculateVariance data = Inr (Fin (varR data))"
  by (simp add: calculateVariance_def calculateMean_Fin sumOf_Fin div_len varR_def)

lemma varR_nonneg: "0 \<le> varR data"
  unfolding varR_def by (intro divide_nonneg_nonneg sum_list_nonneg) auto

lemma calculateStd_Fin: "data \<noteq> [] \<Longrightarrow> calculateStd data = Inr (Fin (sqrt (varR data)))"
  using varR_nonneg [of data] by (simp add: calculateStd_def calculateVariance_Fin)

text \<open>The critical value from the inverse error function is \<open>NaN\<close> up to the level 0.83.\<close>

lemma zCriticalValue_NaN:
  assumes "\<bar>x\<bar> \<le> 83 / 100"
  shows "zCriticalValue (Fin x) = NaN"
proof -
  have "x \<noteq> 0.9" "x \<noteq> 0.95" "x \<noteq> 0.99" using assms by auto
  moreover have "Fin 2 * (Fin 1 - (Fin 1 - Fin x) / Fin 2) - Fin 1 = Fin x"
    by (simp add: field_simps)
  ultimately show ?thesis
    using inverseErrorFunction_NaN [OF assms]
    by (simp only: zCriticalValue_def Let_def) simp
qed

lemma standardError_defined:
  assumes "data \<noteq> []"
  shows "\<exists>se. (case populationVariance options of
            Some pv \<Rightarrow>
              if knownVariance options then Inr (Math_sqrt pv / Math_sqrt (len data))
              else andThen (calculateStd data) (\<lambda>std. Inr (std / Math_sqrt (len data)))
          | None \<Rightarrow> andThen (calculateStd data) (\<lambda>std. Inr (std / Math_sqrt (len data)))) = Inr se"
  using assms by (simp add: calculateStd_Fin split: option.split)

lemma calculateConfidenceInterval_NaN:
  assumes "\<bar>x\<bar> \<le> 83 / 100" and "data \<noteq> []" and "knownVariance options"
  shows "calculateConfidenceInterval data (Fin x) options =
           Inr \<lparr>lower = NaN, upper = NaN, marginOfError = NaN,
                methodName = ''Z-distribution (known variance)'', criticalValue = NaN\<rparr>"
proof -
  obtain se where se: "(case populationVariance options of
            Some pv \<Rightarrow>
              if knownVariance options then Inr (Math_sqrt pv / Math_sqrt (len data))
              else andThen (calculateStd data) (\<lambda>std. Inr (std / Math_sqrt (len data)))
          | None \<Rightarrow> andThen (calculateStd data) (\<lambda>std. Inr (std / Math_sqrt (len data)))) = Inr se"
    using standardError_defined [OF assms(2)] by blast
  show ?thesis
    unfolding calculateConfidenceInterval_def se
    using assms by (simp add: calculateMean_Fin zCriticalValue_NaN [OF assms(1)] Let_def)
qed


section \<open>The table of t critical values\<close>

lemma closestDfLoop_in_table: "map_of tTable d \<noteq> None \<Longrightarrow> closestDfLoop d = d"
  by (subst closestDfLoop.simps) auto

lemma getApproximateTCriticalValue_Fin:
  "getApproximateTCriticalValue (Fin d) level = Inr (levelEntry (dfEntry (Fin (closestDfLoop d))) level)"
  by (simp add: getApproximateTCriticalValue_def)

lemma len_minus_one: "len data - Fin 1 = Fin (real (length data) - 1)"
  by (simp add: len_def)

lemma table3: "map_of tTable 3 = Some (2.353, 3.182, 5.841)"
  by (simp add: tTable_def)

lemma t_df3: "getApproximateTCriticalValue (Fin 3) level = Inr (levelEntry (2.353, 3.182, 5.841) level)"
  by (simp add: getApproximateTCriticalValue_Fin closestDfLoop_in_table table3)


lemma tTable_rows:
  assumes "map_of tTable k = Some (a, b, c)"
  shows "0 < a \<and> a < b \<and> b < c"
proof -
  have "(k, (a, b, c)) \<in> set tTable" using assms by (rule map_of_SomeD)
  then show ?thesis unfolding tTable_def by auto
qed

lemma dfEntry_rows:
  assumes "dfEntry d = (a, b, c)"
  shows "0 < a \<and> a < b \<and> b < c"
proof (cases d)
  case (Fin k)
  show ?thesis
  proof (cases "map_of tTable k")
    case None
    with Fin assms show ?thesis by auto
  next
    case (Some row)
    with Fin assms have "map_of tTable k = Some (a, b, c)" by simp
    then show ?thesis by (rule tTable_rows)
  qed
qed (use assms in auto)


section \<open>A sample with rational statistics\<close>

text \<open>The sample \<open>[0, 0, 2, 2]\<close>: mean 1, population variance 1, standard error 1/2,
  3 degrees of freedom.\<close>

lemma meanR_ex: "meanR [0, 0, 2, 2] = 1"
  by (simp add: meanR_def)

lemma varR_ex: "varR [0, 0, 2, 2] = 1"
  by (simp add: varR_def meanR_ex)

lemma len_ex: "len [0, 0, 2, 2 :: real] = Fin 4"
  by (simp add: len_def)

lemma calculateConfidenceInterval_ex:
  assumes "\<not> knownVariance options"
  shows "calculateConfidenceInterval [0, 0, 2, 2] level options =
           Inr \<lparr>lower = Fin 1 - levelEntry (2.353, 3.182, 5.841) level * Fin (1 / 2),
                upper = Fin 1 + levelEntry (2.353, 3.182, 5.841) level * Fin (1 / 2),
                marginOfError = levelEntry (2.353, 3.182, 5.841) level * Fin (1 / 2),
                methodName = ''t distribution (normal, unknown variance)'',
                criticalValue = levelEntry (2.353, 3.182, 5.841) level\<rparr>"
  using assms
  by (simp add: calculateConfidenceInterval_def calculateMean_Fin calculateStd_Fin meanR_ex varR_ex
      len_ex t_df3 Let_def split: option.split)



section \<open>The shape of the interval of a mean\<close>

lemma calculateConfidenceInterval_shape:
  assumes "data \<noteq> []"
  shows "\<exists>se. \<forall>level. \<exists>r.
           calculateConfidenceInterval data level options = Inr r
           \<and> criticalValue r =
               (if knownVariance options \<or> \<not> (isNormal options \<or> length data \<le> 30)
                then zCriticalValue level
                else levelEntry (dfEntry (Fin (closestDfLoop (real (length data) - 1)))) level)
           \<and> marginOfError r = criticalValue r * se
           \<and> lower r = Fin (meanR data) - marginOfError r
           \<and> upper r = Fin (meanR data) + marginOfError r"
proof -
  obtain se where se: "(case populationVariance options of
            Some pv \<Rightarrow>
              if knownVariance options then Inr (Math_sqrt pv / Math_sqrt (len data))
              else andThen (calculateStd data) (\<lambda>std. Inr (std / Math_sqrt (len data)))
          | None \<Rightarrow> andThen (calculateStd data) (\<lambda>std. Inr (std / Math_sqrt (len data)))) = Inr se"
    using standardError_defined [OF assms] by blast
  have "\<forall>level. \<exists>r.
           calculateConfidenceInterval data level options = Inr r
           \<and> criticalValue r =
               (if knownVariance options \<or> \<not> (isNormal options \<or> length data \<le> 30)
                then zCriticalValue level
                else levelEntry (dfEntry (Fin (closestDfLoop (real (length data) - 1)))) level)
           \<and> marginOfError r = criticalValue r * se
           \<and> lower r = Fin (meanR data) - marginOfError r
           \<and> upper r = Fin (meanR data) + marginOfError r"
    unfolding calculateConfidenceInterval_def se
    using assms
    by (simp add: calculateMean_Fin getApproximateTCriticalValue_Fin len_minus_one Let_def)
  then show ?thesis by blast
qed

lemma zCriticalValue_tabulated:
  "zCriticalValue (Fin 0.90) = Fin 1.645"
  "zCriticalValue (Fin 0.95) = Fin 1.96"
  "zCriticalValue (Fin 0.99) = Fin 2.576"
  by (simp_all add: zCriticalValue_def)

lemma levelEntry_tabulated:
  "levelEntry (a, b, c) (Fin 0.90) = Fin a"
  "levelEntry (a, b, c) (Fin 0.95) = Fin b"
  "levelEntry (a, b, c) (Fin 0.99) = Fin c"
  by (simp_all add: levelEntry_def)

text \<open>A finite positive product with a finite positive factor has a finite positive
  second factor.\<close>

lemma times_Fin_positive:
  assumes "Fin c * se = Fin e" and "0 < c" and "0 < e"
  shows "\<exists>s. se = Fin s \<and> 0 < s"
proof (cases se)
  case (Fin s)
  with assms have "c * s = e" by simp
  with assms have "0 < s" by (metis zero_less_mult_pos)
  with Fin show ?thesis by simp
qed (use assms in \<open>auto split: if_splits\<close>)



section \<open>The two tests on a sample that is not empty\<close>

lemma getApproximateTCriticalValue_len:
  "getApproximateTCriticalValue (len data - Fin 1) level =
     Inr (levelEntry (dfEntry (Fin (closestDfLoop (real (length data) - 1)))) level)"
  by (simp add: len_minus_one getApproximateTCriticalValue_Fin)

lemma performZTest_fields:
  assumes "data \<noteq> []"
  shows "\<exists>r. performZTest data mu0 sigma alpha testType = Inr r
           \<and> zt_mean r = Fin (meanR data)
           \<and> zValue r = (Fin (meanR data) - mu0) / (sigma / Math_sqrt (len data))
           \<and> zt_criticalValue r =
               (case testType of
                  Left \<Rightarrow> - Math_sqrt (Fin 2) * inverseErrorFunction (Fin 2 * (Fin 1 - alpha) - Fin 1)
                | Right \<Rightarrow> Math_sqrt (Fin 2) * inverseErrorFunction (Fin 2 * (Fin 1 - alpha) - Fin 1)
                | Two \<Rightarrow> Math_sqrt (Fin 2) * inverseErrorFunction (Fin 2 * (Fin 1 - alpha / Fin 2) - Fin 1))
           \<and> zt_rejected r =
               (case testType of
                  Left \<Rightarrow> zValue r \<le> zt_criticalValue r
                | Right \<Rightarrow> zValue r \<ge> zt_criticalValue r
                | Two \<Rightarrow> \<bar>zValue r\<bar> \<ge> zt_criticalValue r)
           \<and> zt_confidenceInterval r =
               Some (companionInterval testType (Fin (meanR data))
                 (Math_sqrt (Fin 2) * inverseErrorFunction (Fin 2 * (Fin 1 - alpha / Fin 2) - Fin 1)
                  * (sigma / Math_sqrt (len data))))"
  using assms
  by (cases testType) (simp_all add: performZTest_def calculateMean_Fin Let_def companionInterval_def)

lemma performTTest_fields:
  assumes "data \<noteq> []"
  shows "\<exists>r. performTTest data mu0 alpha testType = Inr r
           \<and> tt_mean r = Fin (meanR data)
           \<and> tt_std r = Fin (sqrt (varR data))
           \<and> tValue r = (Fin (meanR data) - mu0) / (Fin (sqrt (varR data)) / Math_sqrt (len data))
           \<and> tt_criticalValue r =
               (case testType of
                  Left \<Rightarrow> - levelEntry (dfEntry (Fin (closestDfLoop (real (length data) - 1)))) (Fin 1 - alpha)
                | Right \<Rightarrow> levelEntry (dfEntry (Fin (closestDfLoop (real (length data) - 1)))) (Fin 1 - alpha)
                | Two \<Rightarrow> levelEntry (dfEntry (Fin (closestDfLoop (real (length data) - 1)))) (Fin 1 - alpha / Fin 2))
           \<and> tt_rejected r =
               (case testType of
                  Left \<Rightarrow> tValue r \<le> tt_criticalValue r
                | Right \<Rightarrow> tValue r \<ge> tt_criticalValue r
                | Two \<Rightarrow> \<bar>tValue r\<bar> \<ge> tt_criticalValue r)
           \<and> tt_confidenceInterval r =
               Some (companionInterval testType (Fin (meanR data))
                 (levelEntry (dfEntry (Fin (closestDfLoop (real (length data) - 1)))) (Fin 1 - alpha / Fin 2)
                  * (Fin (sqrt (varR data)) / Math_sqrt (len data))))"
  using assms
  by (cases testType)
     (simp_all add: performTTest_def calculateMean_Fin calculateStd_Fin Let_def companionInterval_def
        getApproximateTCriticalValue_len)


section \<open>Power analysis at the special values\<close>


lemma erf_PInf: "erf PInf = Fin 1"
  by (simp add: erf_def Let_def)


lemma normalCDF_PInf: "normalCDF PInf = Fin 1"
  by (simp add: normalCDF_def erf_PInf)














section \<open>Bounds of the approximated distribution function\<close>





section \<open>Power at the computed sample size\<close>




















section \<open>The approximated distribution function is increasing\<close>

lemma erf_erfR: "erf (Fin x) = Fin (erfR x)"
  unfolding erf_Fin erfR_def erfcR_def erfPoly_def ..

lemma normalCDF_normalCDFR: "normalCDF (Fin x) = Fin (normalCDFR x)"
  by (simp add: normalCDF_def erf_erfR normalCDFR_def)

lemma quadratic_nonneg:
  fixes a b c t :: real
  assumes "0 < a" and "b\<^sup>2 \<le> 4 * a * c"
  shows "0 \<le> a * t\<^sup>2 + b * t + c"
proof -
  have "4 * a * (a * t\<^sup>2 + b * t + c) = (2 * a * t + b)\<^sup>2 + (4 * a * c - b\<^sup>2)"
    by (simp add: power2_eq_square algebra_simps)
  moreover have "0 \<le> (2 * a * t + b)\<^sup>2" by (rule zero_le_power2)
  ultimately have "0 \<le> (4 * a) * (a * t\<^sup>2 + b * t + c)" using assms(2) by linarith
  then show ?thesis using assms(1) by (simp add: zero_le_mult_iff)
qed

lemma erfPoly_slope_nonneg:
  fixes t :: real
  shows "0 \<le> 5.307027145 * t ^ 4 + (- 5.812608108) * t ^ 3 + 4.264241223 * t\<^sup>2
              + (- 0.568993472) * t + 0.254829592"
proof -
  have q1: "0 \<le> 5.307027145 * t\<^sup>2 + (- 5.812608108) * t + 3.264241223"
    by (rule quadratic_nonneg) (simp_all add: power2_eq_square)
  have q2: "0 \<le> 1 * t\<^sup>2 + (- 0.568993472) * t + 0.254829592"
    by (rule quadratic_nonneg) (simp_all add: power2_eq_square)
  have "0 \<le> t\<^sup>2 * (5.307027145 * t\<^sup>2 + (- 5.812608108) * t + 3.264241223)"
    using q1 by (intro mult_nonneg_nonneg) simp_all
  moreover have "5.307027145 * t ^ 4 + (- 5.812608108) * t ^ 3 + 4.264241223 * t\<^sup>2
              + (- 0.568993472) * t + 0.254829592
        = t\<^sup>2 * (5.307027145 * t\<^sup>2 + (- 5.812608108) * t + 3.264241223)
          + (1 * t\<^sup>2 + (- 0.568993472) * t + 0.254829592)"
    by (simp add: power2_eq_square power3_eq_cube power4_eq_xxxx algebra_simps)
  ultimately show ?thesis using q2 by linarith
qed

lemma erfPoly_deriv:
  "(erfPoly has_real_derivative
      (5.307027145 * t ^ 4 + (- 5.812608108) * t ^ 3 + 4.264241223 * t\<^sup>2
              + (- 0.568993472) * t + 0.254829592)) (at t)"
  unfolding erfPoly_def
  by (rule derivative_eq_intros refl | simp)+
     (simp add: power2_eq_square power3_eq_cube power4_eq_xxxx algebra_simps)

lemma erfPoly_mono: "s \<le> t \<Longrightarrow> erfPoly s \<le> erfPoly t"
  by (rule DERIV_nonneg_imp_nondecreasing) (use erfPoly_deriv erfPoly_slope_nonneg in blast)+

lemma erfPoly_zero: "erfPoly 0 = 0"
  by (simp add: erfPoly_def)

lemma erfPoly_one: "erfPoly 1 = 999999999 / 1000000000"
  by (simp add: erfPoly_def)

lemma erfPoly_unit: "0 \<le> t \<Longrightarrow> t \<le> 1 \<Longrightarrow> 0 \<le> erfPoly t \<and> erfPoly t \<le> 1"
  using erfPoly_mono [of 0 t] erfPoly_mono [of t 1] by (simp add: erfPoly_zero erfPoly_one)

text \<open>The complement \<open>1 - erf\<close> on the positive half-line: a product of two decreasing,
  non-negative factors.\<close>

lemma erfcR_antimono:
  assumes "0 \<le> x" and "x \<le> y"
  shows "erfcR y \<le> erfcR x"
proof -
  have y: "0 \<le> y" using assms by linarith
  have dx: "0 < 1 + 0.3275911 * x" using assms(1) by simp
  have dy: "0 < 1 + 0.3275911 * y" "1 \<le> 1 + 0.3275911 * y" using y by simp_all
  have ty: "0 \<le> 1 / (1 + 0.3275911 * y)" "1 / (1 + 0.3275911 * y) \<le> 1"
    using dy by simp_all
  have "1 + 0.3275911 * x \<le> 1 + 0.3275911 * y" using assms(2) by simp
  then have "1 / (1 + 0.3275911 * y) \<le> 1 / (1 + 0.3275911 * x)"
    using dx by (intro divide_left_mono) simp_all
  then have P: "erfPoly (1 / (1 + 0.3275911 * y)) \<le> erfPoly (1 / (1 + 0.3275911 * x))"
    by (rule erfPoly_mono)
  have Py: "0 \<le> erfPoly (1 / (1 + 0.3275911 * y))"
    using erfPoly_unit [OF ty] by simp
  have "x * x \<le> y * y" using assms y by (intro mult_mono) simp_all
  then have E: "exp (- y * y) \<le> exp (- x * x)" by simp
  show ?thesis
    unfolding erfcR_def using P E Py by (intro mult_mono) simp_all
qed

lemma erfcR_range:
  assumes "0 \<le> y"
  shows "0 \<le> erfcR y" and "erfcR y \<le> 1"
proof -
  have dy: "0 < 1 + 0.3275911 * y" "1 \<le> 1 + 0.3275911 * y" using assms by simp_all
  have ty: "0 \<le> 1 / (1 + 0.3275911 * y)" "1 / (1 + 0.3275911 * y) \<le> 1"
    using dy by simp_all
  have P: "0 \<le> erfPoly (1 / (1 + 0.3275911 * y))" "erfPoly (1 / (1 + 0.3275911 * y)) \<le> 1"
    using erfPoly_unit [OF ty] by simp_all
  have E: "exp (- y * y) \<le> 1" using assms by simp
  show "0 \<le> erfcR y" unfolding erfcR_def using P(1) by simp
  have "erfPoly (1 / (1 + 0.3275911 * y)) * exp (- y * y) \<le> 1 * 1"
    using P E by (intro mult_mono) simp_all
  then show "erfcR y \<le> 1" unfolding erfcR_def by simp
qed


lemma erfR_mono:
  assumes "x \<le> y"
  shows "erfR x \<le> erfR y"
proof -
  define g where "g = erfcR \<bar>x\<bar>"
  define h where "h = erfcR \<bar>y\<bar>"
  have g: "0 \<le> g" "g \<le> 1"
    unfolding g_def by (rule erfcR_range, simp)+
  have h: "0 \<le> h" "h \<le> 1"
    unfolding h_def by (rule erfcR_range, simp)+
  have ex: "erfR x = (if 0 \<le> x then 1 else - 1) * (1 - g)"
    unfolding erfR_def g_def ..
  have ey: "erfR y = (if 0 \<le> y then 1 else - 1) * (1 - h)"
    unfolding erfR_def h_def ..
  consider "0 \<le> x" | "x < 0" "0 \<le> y" | "y < 0" using assms by linarith
  then show ?thesis
  proof cases
    case 1
    then have y: "0 \<le> y" using assms by linarith
    have "\<bar>x\<bar> \<le> \<bar>y\<bar>" using 1 assms by simp
    then have "h \<le> g" unfolding g_def h_def by (intro erfcR_antimono) simp_all
    then show ?thesis unfolding ex ey using 1 y by simp
  next
    case 2
    then show ?thesis unfolding ex ey using g h by simp
  next
    case 3
    then have x: "x < 0" using assms by linarith
    have "\<bar>y\<bar> \<le> \<bar>x\<bar>" using 3 assms by simp
    then have "g \<le> h" unfolding g_def h_def by (intro erfcR_antimono) simp_all
    then show ?thesis unfolding ex ey using 3 x by simp
  qed
qed


lemma normalCDFR_mono: "x \<le> y \<Longrightarrow> normalCDFR x \<le> normalCDFR y"
  using erfR_mono [of "x / sqrt 2" "y / sqrt 2"]
  by (simp add: normalCDFR_def divide_right_mono)

lemma normalCDF_mono: "x \<le> y \<Longrightarrow> normalCDF (Fin x) \<le> normalCDF (Fin y)"
  by (simp add: normalCDF_normalCDFR normalCDFR_mono)

section \<open>The power at the computed sample size, on the tested side\<close>















section \<open>Chi-square: evaluation on two samples\<close>


lemma arr_ex: "arrMin [1, 2, 3, 4, 5] = Fin 1" "arrMax [1, 2, 3, 4, 5] = Fin 5"
  by (simp_all add: arrMin_def arrMax_def Math_min_def Math_max_def)

lemma upt10: "[0..<10] = [0, 1, 2, 3, 4, 5, 6, 7, 8, 9]"
  by (simp add: upt_rec)

lemma bins10:
  "map (\<lambda>i. (Fin 1 + Fin (real i) * Fin (2 / 5), Fin 1 + (Fin (real i) + Fin 1) * Fin (2 / 5))) [0..<10]
   = [(Fin 1, Fin (7 / 5)), (Fin (7 / 5), Fin (9 / 5)), (Fin (9 / 5), Fin (11 / 5)),
      (Fin (11 / 5), Fin (13 / 5)), (Fin (13 / 5), Fin 3), (Fin 3, Fin (17 / 5)),
      (Fin (17 / 5), Fin (19 / 5)), (Fin (19 / 5), Fin (21 / 5)), (Fin (21 / 5), Fin (23 / 5)),
      (Fin (23 / 5), Fin 5)]"
  by (simp add: upt10)

lemma observed10:
  "foldl (countValue [(Fin 1, Fin (7 / 5)), (Fin (7 / 5), Fin (9 / 5)), (Fin (9 / 5), Fin (11 / 5)),
      (Fin (11 / 5), Fin (13 / 5)), (Fin (13 / 5), Fin 3), (Fin 3, Fin (17 / 5)),
      (Fin (17 / 5), Fin (19 / 5)), (Fin (19 / 5), Fin (21 / 5)), (Fin (21 / 5), Fin (23 / 5)),
      (Fin (23 / 5), Fin 5)] 10) (replicate 10 (Fin 0)) [1, 2, 3, 4, 5]
     = [Fin 1, Fin 0, Fin 1, Fin 0, Fin 0, Fin 1, Fin 0, Fin 1, Fin 0, Fin 1]"
  by (simp add: countValue_def inBin_def upt10 eval_nat_numeral)


lemma gof_expected10:
  "gof_expected [1, 2, 3, 4, 5] ''uniform'' [(''a'', Fin (- 10)), (''b'', Fin 100)] 10 bins
       (Fin 1) (Fin 5) (Fin (2 / 5))
     = Inr (replicate 10 (Fin (1 / 55)))"
  by (simp add: gof_expected_def param_def orElse_def truthy_def len_def Let_def upt10 eval_nat_numeral)

lemma merge10:
  "mergeBins 0 (replicate 10 (Fin (1 / 55)))
     [Fin 1, Fin 0, Fin 1, Fin 0, Fin 0, Fin 1, Fin 0, Fin 1, Fin 0, Fin 1]
     [(Fin 1, Fin (7 / 5)), (Fin (7 / 5), Fin (9 / 5)), (Fin (9 / 5), Fin (11 / 5)),
      (Fin (11 / 5), Fin (13 / 5)), (Fin (13 / 5), Fin 3), (Fin 3, Fin (17 / 5)),
      (Fin (17 / 5), Fin (19 / 5)), (Fin (19 / 5), Fin (21 / 5)), (Fin (21 / 5), Fin (23 / 5)),
      (Fin (23 / 5), Fin 5)]
     = ([NaN], [NaN], [])"
  by (simp add: mergeBins.simps addAt_def removeAt_def eval_nat_numeral)

lemma gof_ex:
  "map_sum id observedFrequencies
     (gof_calculateChiSquareTest [1, 2, 3, 4, 5] ''uniform'' [(''a'', Fin (- 10)), (''b'', Fin 100)] 10)
   = Inr [NaN]"
proof -
  have w: "(Fin 5 - Fin 1) / Fin (real 10) = Fin (2 / 5)" by simp
  show ?thesis
    unfolding gof_calculateChiSquareTest_def arr_ex Let_def w bins10 observed10 gof_expected10
      andThen_Inr merge10
    by simp
qed

text \<open>
  The statistics utility on \<open>sample40\<close>, tested against the uniform distribution on
  \<open>[1/4, 5/4]\<close> with 8 bins. Every number of this evaluation is a multiple of a power of
  two with few digits (bin bounds \<open>i/8\<close>, the last bound \<open>1 + 2\<^sup>-\<^sup>5\<^sup>2\<close>, expected frequencies
  0, 5 and \<open>5 + 40 * 2\<^sup>-\<^sup>5\<^sup>2\<close>), so each operation is exact in double precision as well.
\<close>

lemma sort40: "sort sample40 = sample40"
  by (rule sorted_sort_id) (simp add: sample40_def)

lemma upt8: "[0..<8] = [0, 1, 2, 3, 4, 5, 6, 7]"
  by (simp add: upt_rec)

lemma cs_ex:
  "map_sum id (\<lambda>r. map (\<lambda>b. (bin_min b, bin_max b, observed b, expected b)) (cs_bins r))
     (calculateChiSquareTest nm sample40 ''uniform'' [(''a'', Fin (1 / 4)), (''b'', Fin (5 / 4))] 8)
   = Inr [(Fin (1 / 4), Fin (3 / 8), Fin 0, Fin 5),
          (Fin (3 / 8), Fin (1 / 2), Fin 0, Fin 5),
          (Fin (1 / 2), Fin (5 / 8), Fin 0, Fin 5),
          (Fin (5 / 8), Fin (3 / 4), Fin 0, Fin 5),
          (Fin (3 / 4), Fin (7 / 8), Fin 0, Fin 5),
          (Fin (7 / 8), Fin (1 + 1 / 2 ^ 52), Fin 39, Fin (5 + 40 / 2 ^ 52))]"
  unfolding calculateChiSquareTest_def sort40 Let_def
  by (simp add: sample40_def upt8 cs_expected_def param_def orElse_def truthy_def len_def
      Math_max_def Math_min_def EPSILON_def Let_def filter_replicate)



section \<open>Claim C1: the tail type of the interval of a mean\<close>

text \<open>
  C1, as stated: with \<open>tailType\<close> \<open>'left-tailed'\<close> \<open>calculateConfidenceInterval\<close> returns
  \<open>(-Infinity, mean + E]\<close>, with \<open>'right-tailed'\<close> \<open>[mean - E, Infinity)\<close>. The function of
  the statistics utility does not read \<open>tailType\<close>: on the sample \<open>[0, 0, 2, 2]\<close> at the
  level 0.95 it returns the two-sided interval \<open>[-0.591, 2.591]\<close> for both one-sided
  requests.
\<close>

theorem C1_tailType_not_read:
  "calculateConfidenceInterval [0, 0, 2, 2] (Fin 0.95)
       \<lparr>isNormal = False, knownVariance = False, populationVariance = None,
        tailType = LeftTailed\<rparr> =
     Inr \<lparr>lower = Fin (- 0.591), upper = Fin 2.591, marginOfError = Fin 1.591,
          methodName = ''t distribution (normal, unknown variance)'',
          criticalValue = Fin 3.182\<rparr>
   \<and> calculateConfidenceInterval [0, 0, 2, 2] (Fin 0.95)
       \<lparr>isNormal = False, knownVariance = False, populationVariance = None,
        tailType = RightTailed\<rparr> =
     Inr \<lparr>lower = Fin (- 0.591), upper = Fin 2.591, marginOfError = Fin 1.591,
          methodName = ''t distribution (normal, unknown variance)'',
          criticalValue = Fin 3.182\<rparr>"
  by (simp add: calculateConfidenceInterval_ex levelEntry_def)

text \<open>The same for every sample, level and options: the tail type changes nothing.\<close>

lemma calculateConfidenceInterval_any_tailType:
  "calculateConfidenceInterval data level (options\<lparr>tailType := t\<rparr>) =
   calculateConfidenceInterval data level options"
  by (simp add: calculateConfidenceInterval_def split: option.split)

text \<open>
  The backup copy of the function does what the claim says: for every non-empty sample
  the bounds are \<open>(-Infinity, mean + E]\<close>, \<open>[mean - E, Infinity)\<close> or
  \<open>[mean - E, mean + E]\<close> by the tail type, with \<open>E\<close> the margin of error it returns.
\<close>

lemma bk_calculateConfidenceInterval_tails:
  assumes "data \<noteq> []"
  shows "\<exists>r. bk_calculateConfidenceInterval data level options = Inr r
           \<and> (lower r, upper r) =
               (case tailType options of
                  LeftTailed \<Rightarrow> (NInf, Fin (meanR data) + marginOfError r)
                | RightTailed \<Rightarrow> (Fin (meanR data) - marginOfError r, PInf)
                | TwoTailed \<Rightarrow> (Fin (meanR data) - marginOfError r,
                                 Fin (meanR data) + marginOfError r))"
proof -
  obtain se where se: "(case populationVariance options of
            Some pv \<Rightarrow>
              if knownVariance options then Inr (Math_sqrt pv / Math_sqrt (len data))
              else andThen (calculateStd data) (\<lambda>std. Inr (std / Math_sqrt (len data)))
          | None \<Rightarrow> andThen (calculateStd data) (\<lambda>std. Inr (std / Math_sqrt (len data)))) = Inr se"
    using standardError_defined [OF assms] by blast
  show ?thesis
    unfolding bk_calculateConfidenceInterval_def se
    using assms
    by (cases "tailType options")
       (simp_all add: calculateMean_Fin getApproximateTCriticalValue_Fin len_minus_one Let_def)
qed



section \<open>Claim C2: the companion interval of the tests\<close>

text \<open>
  C2, as stated: whatever the tail type, \<open>performZTest\<close> and \<open>performTTest\<close> return a
  two-sided companion interval with finite bounds. A left-tailed t test of the sample
  \<open>[0, 0, 2, 2]\<close> returns \<open>(-Infinity, 2.591]\<close>, and a left-tailed Z test a lower bound
  \<open>-Infinity\<close> as well.
\<close>

theorem C2_left_tailed_counterexample:
  "map_sum id tt_confidenceInterval (performTTest [0, 0, 2, 2] (Fin 0) (Fin 0.05) Left)
     = Inr (Some \<lparr>lower = NInf, upper = Fin 2.591\<rparr>)
   \<and> map_sum id (map_option lower \<circ> zt_confidenceInterval)
         (performZTest [0, 0, 2, 2] (Fin 0) (Fin 1) (Fin 0.05) Left)
     = Inr (Some NInf)"
proof -
  have ne: "[0, 0, 2, 2 :: real] \<noteq> []" by simp
  have three: "closestDfLoop 3 = 3"
    by (simp add: closestDfLoop_in_table table3)
  obtain rt where "performTTest [0, 0, 2, 2] (Fin 0) (Fin 0.05) Left = Inr rt"
    and "tt_confidenceInterval rt = Some \<lparr>lower = NInf, upper = Fin 2.591\<rparr>"
    using performTTest_fields [OF ne, of "Fin 0" "Fin 0.05" Left]
    by (auto simp: meanR_ex varR_ex len_ex three table3 levelEntry_def companionInterval_def)
  moreover obtain rz where "performZTest [0, 0, 2, 2] (Fin 0) (Fin 1) (Fin 0.05) Left = Inr rz"
    and "map_option lower (zt_confidenceInterval rz) = Some NInf"
    using performZTest_fields [OF ne, of "Fin 0" "Fin 1" "Fin 0.05" Left]
    by (auto simp: companionInterval_def)
  ultimately show ?thesis by simp
qed

text \<open>
  C2, amended: for every non-empty sample both tests return a companion interval built
  from the two-sided critical value (at the level \<open>1 - alpha/2\<close>) whatever the tail type:
  \<open>[mean - c * SE, mean + c * SE]\<close> for a two-sided test, \<open>(-Infinity, mean + c * SE]\<close>
  for a left-tailed test and \<open>[mean - c * SE, Infinity)\<close> for a right-tailed test.
\<close>

theorem C2_companion_interval:
  assumes "data \<noteq> []"
  shows "\<exists>mean std tc.
           calculateMean data = Inr mean \<and> calculateStd data = Inr std
           \<and> getApproximateTCriticalValue (len data - Fin 1) (Fin 1 - alpha / Fin 2) = Inr tc
           \<and> map_sum id zt_confidenceInterval (performZTest data mu0 sigma alpha testType)
               = Inr (Some (companionInterval testType mean
                   (Math_sqrt (Fin 2) * inverseErrorFunction (Fin 2 * (Fin 1 - alpha / Fin 2) - Fin 1)
                    * (sigma / Math_sqrt (len data)))))
           \<and> map_sum id tt_confidenceInterval (performTTest data mu0 alpha testType)
               = Inr (Some (companionInterval testType mean (tc * (std / Math_sqrt (len data)))))"
proof -
  obtain rz where "performZTest data mu0 sigma alpha testType = Inr rz"
    and "zt_confidenceInterval rz =
           Some (companionInterval testType (Fin (meanR data))
             (Math_sqrt (Fin 2) * inverseErrorFunction (Fin 2 * (Fin 1 - alpha / Fin 2) - Fin 1)
              * (sigma / Math_sqrt (len data))))"
    using performZTest_fields [OF assms, of mu0 sigma alpha testType] by blast
  moreover obtain rt where "performTTest data mu0 alpha testType = Inr rt"
    and "tt_confidenceInterval rt =
           Some (companionInterval testType (Fin (meanR data))
             (levelEntry (dfEntry (Fin (closestDfLoop (real (length data) - 1)))) (Fin 1 - alpha / Fin 2)
              * (Fin (sqrt (varR data)) / Math_sqrt (len data))))"
    using performTTest_fields [OF assms, of mu0 alpha testType] by blast
  ultimately show ?thesis
    using assms
    by (simp add: calculateMean_Fin calculateStd_Fin getApproximateTCriticalValue_len)
qed

theorem C2_companion_interval_witness:
  "\<exists>mean std tc.
     calculateMean [0, 0, 2, 2] = Inr mean \<and> calculateStd [0, 0, 2, 2] = Inr std
     \<and> getApproximateTCriticalValue (len [0, 0, 2, 2 :: real] - Fin 1) (Fin 1 - Fin 0.05 / Fin 2) = Inr tc
     \<and> map_sum id zt_confidenceInterval (performZTest [0, 0, 2, 2] (Fin 0) (Fin 1) (Fin 0.05) Right)
         = Inr (Some (companionInterval Right mean
             (Math_sqrt (Fin 2) * inverseErrorFunction (Fin 2 * (Fin 1 - Fin 0.05 / Fin 2) - Fin 1)
              * (Fin 1 / Math_sqrt (len [0, 0, 2, 2 :: real])))))
     \<and> map_sum id tt_confidenceInterval (performTTest [0, 0, 2, 2] (Fin 0) (Fin 0.05) Right)
         = Inr (Some (companionInterval Right mean (tc * (std / Math_sqrt (len [0, 0, 2, 2 :: real])))))"
  using C2_companion_interval [of "[0, 0, 2, 2]" "Fin 0.05" "Fin 0" "Fin 1" Right] by simp
section \<open>Claim C3: sample size and power\<close>




section \<open>Claim C4: symmetry and width of the two-sided interval\<close>

text \<open>
  C4, as stated: the interval is symmetric about the sample mean and its width is strictly
  increasing in the confidence level over \<open>(0, 1)\<close>. On the sample \<open>[0, 0, 2, 2]\<close> the levels
  0.5 and 0.6 give the same interval: the t table has no entry for them and the entry of
  0.95 is used for both.
\<close>

theorem C4_width_counterexample:
  "calculateConfidenceInterval [0, 0, 2, 2] (Fin 0.5)
       \<lparr>isNormal = False, knownVariance = False, populationVariance = None,
        tailType = TwoTailed\<rparr> =
     Inr \<lparr>lower = Fin (- 0.591), upper = Fin 2.591, marginOfError = Fin 1.591,
          methodName = ''t distribution (normal, unknown variance)'',
          criticalValue = Fin 3.182\<rparr>
   \<and> calculateConfidenceInterval [0, 0, 2, 2] (Fin 0.6)
       \<lparr>isNormal = False, knownVariance = False, populationVariance = None,
        tailType = TwoTailed\<rparr> =
     Inr \<lparr>lower = Fin (- 0.591), upper = Fin 2.591, marginOfError = Fin 1.591,
          methodName = ''t distribution (normal, unknown variance)'',
          criticalValue = Fin 3.182\<rparr>
   \<and> \<not> ciWidth [0, 0, 2, 2] (Fin 0.5)
          \<lparr>isNormal = False, knownVariance = False, populationVariance = None,
           tailType = TwoTailed\<rparr>
        < ciWidth [0, 0, 2, 2] (Fin 0.6)
          \<lparr>isNormal = False, knownVariance = False, populationVariance = None,
           tailType = TwoTailed\<rparr>"
  by (simp add: ciWidth_def calculateConfidenceInterval_ex levelEntry_def)

text \<open>
  C4, amended: the interval is built around the sample mean from one margin, \<open>lower = mean -
  marginOfError\<close> and \<open>upper = mean + marginOfError\<close> (so \<open>upper - mean\<close> and \<open>mean - lower\<close> are
  equal up to the rounding of these two operations); and whenever the margin of error at
  the level 0.95 is finite and positive, the margin of error, half the width, is strictly
  increasing along the tabulated levels 0.90, 0.95, 0.99. (Any other level takes the entry
  of 0.95 in the t table, or the inverse error function approximation.)
\<close>

theorem C4_bounds_and_tabulated_margins:
  assumes "calculateConfidenceInterval data level options = Inr r"
    and "calculateMean data = Inr mean"
  shows "lower r = mean - marginOfError r
         \<and> upper r = mean + marginOfError r
         \<and> (Fin 0 < ciMargin data (Fin 0.95) options \<and> ciMargin data (Fin 0.95) options < PInf
              \<longrightarrow> ciMargin data (Fin 0.90) options < ciMargin data (Fin 0.95) options
                  \<and> ciMargin data (Fin 0.95) options < ciMargin data (Fin 0.99) options)"
proof -
  let ?z = "knownVariance options \<or> \<not> (isNormal options \<or> length data \<le> 30)"
  have ne: "data \<noteq> []"
    using assms(1) by (auto simp: calculateConfidenceInterval_def)
  then have mean: "mean = Fin (meanR data)"
    using assms(2) by (simp add: calculateMean_Fin)
  obtain a b c where row: "dfEntry (Fin (closestDfLoop (real (length data) - 1))) = (a, b, c)"
    by (cases "dfEntry (Fin (closestDfLoop (real (length data) - 1)))")
  obtain se where shape: "\<And>lv. \<exists>r.
           calculateConfidenceInterval data lv options = Inr r
           \<and> criticalValue r = (if ?z then zCriticalValue lv else levelEntry (a, b, c) lv)
           \<and> marginOfError r = criticalValue r * se
           \<and> lower r = Fin (meanR data) - marginOfError r
           \<and> upper r = Fin (meanR data) + marginOfError r"
    using calculateConfidenceInterval_shape [OF ne, of options] unfolding row by blast
  have bounds: "lower r = mean - marginOfError r" "upper r = mean + marginOfError r"
    using shape [of level] assms(1) mean by auto
  define c90 c95 c99 where "c90 = (if ?z then 1.645 else a)"
    and "c95 = (if ?z then 1.96 else b)"
    and "c99 = (if ?z then 2.576 else c)"
  have ord: "0 < c90" "c90 < c95" "c95 < c99"
    using dfEntry_rows [OF row] by (simp_all add: c90_def c95_def c99_def)
  have crit: "(if ?z then zCriticalValue (Fin 0.90) else levelEntry (a, b, c) (Fin 0.90)) = Fin c90"
    "(if ?z then zCriticalValue (Fin 0.95) else levelEntry (a, b, c) (Fin 0.95)) = Fin c95"
    "(if ?z then zCriticalValue (Fin 0.99) else levelEntry (a, b, c) (Fin 0.99)) = Fin c99"
    by (simp_all add: c90_def c95_def c99_def zCriticalValue_def levelEntry_def)
  have m90: "ciMargin data (Fin 0.90) options = Fin c90 * se"
    using shape [of "Fin 0.90"] crit(1) by (auto simp: ciMargin_def)
  have m95: "ciMargin data (Fin 0.95) options = Fin c95 * se"
    using shape [of "Fin 0.95"] crit(2) by (auto simp: ciMargin_def)
  have m99: "ciMargin data (Fin 0.99) options = Fin c99 * se"
    using shape [of "Fin 0.99"] crit(3) by (auto simp: ciMargin_def)
  have mono: "Fin c90 * se < Fin c95 * se \<and> Fin c95 * se < Fin c99 * se"
    if "Fin 0 < Fin c95 * se" "Fin c95 * se < PInf"
  proof -
    have "\<exists>e. Fin c95 * se = Fin e \<and> 0 < e"
      using that by (cases "Fin c95 * se") simp_all
    then obtain e where e: "Fin c95 * se = Fin e" "0 < e" by blast
    then obtain s where s: "se = Fin s" "0 < s"
      using times_Fin_positive [of c95 se e] ord by auto
    then show ?thesis using ord by simp
  qed
  show ?thesis
    unfolding m90 m95 m99 using bounds mono by blast
qed

theorem C4_bounds_and_tabulated_margins_witness:
  "Fin (- 0.591) = Fin 1 - Fin 1.591
   \<and> Fin 2.591 = Fin 1 + Fin 1.591
   \<and> ciMargin [0, 0, 2, 2] (Fin 0.90)
        \<lparr>isNormal = False, knownVariance = False, populationVariance = None,
         tailType = TwoTailed\<rparr>
      < ciMargin [0, 0, 2, 2] (Fin 0.95)
        \<lparr>isNormal = False, knownVariance = False, populationVariance = None,
         tailType = TwoTailed\<rparr>
   \<and> ciMargin [0, 0, 2, 2] (Fin 0.95)
        \<lparr>isNormal = False, knownVariance = False, populationVariance = None,
         tailType = TwoTailed\<rparr>
      < ciMargin [0, 0, 2, 2] (Fin 0.99)
        \<lparr>isNormal = False, knownVariance = False, populationVariance = None,
         tailType = TwoTailed\<rparr>"
proof -
  let ?o = "\<lparr>isNormal = False, knownVariance = False, populationVariance = None,
             tailType = TwoTailed\<rparr>"
  let ?r = "\<lparr>lower = Fin (- 0.591), upper = Fin 2.591, marginOfError = Fin 1.591,
              methodName = ''t distribution (normal, unknown variance)'',
              criticalValue = Fin 3.182\<rparr>"
  have r: "calculateConfidenceInterval [0, 0, 2, 2] (Fin 0.95) ?o = Inr ?r"
    by (simp add: calculateConfidenceInterval_ex levelEntry_def)
  have m: "calculateMean [0, 0, 2, 2] = Inr (Fin 1)"
    by (simp add: calculateMean_Fin meanR_ex)
  have p: "Fin 0 < ciMargin [0, 0, 2, 2] (Fin 0.95) ?o \<and> ciMargin [0, 0, 2, 2] (Fin 0.95) ?o < PInf"
    unfolding ciMargin_def r by simp
  show ?thesis
    using C4_bounds_and_tabulated_margins [OF r m] p by simp
qed

section \<open>Claim C5: the unguarded square root of the inverse error function\<close>

text \<open>
  C5: inside the documented domain, for every \<open>\<bar>x\<bar> \<le> 0.83\<close> (so for \<open>x = 0.5\<close>), the
  \<open>inverseErrorFunction\<close> of the statistics utility takes the square root of a negative
  number and returns \<open>NaN\<close>; \<open>calculateConfidenceInterval\<close> with a known variance and such
  a level (0.8 for one) then returns \<open>NaN\<close> as critical value, margin of error and both
  bounds; the copy in the power analysis module returns the signed infinity instead.
\<close>

theorem C5_inverseErrorFunction_NaN:
  assumes "\<bar>x\<bar> \<le> 83 / 100" and "data \<noteq> []" and "knownVariance options"
  shows "inverseErrorFunction (Fin x) = NaN
         \<and> calculateConfidenceInterval data (Fin x) options =
             Inr \<lparr>lower = NaN, upper = NaN, marginOfError = NaN,
                  methodName = ''Z-distribution (known variance)'', criticalValue = NaN\<rparr>
         \<and> pa_inverseErrorFunction (Fin x) = (if 0 \<le> x then PInf else NInf)"
  using assms
  by (simp add: inverseErrorFunction_NaN calculateConfidenceInterval_NaN pa_inverseErrorFunction_Inf)

theorem C5_inverseErrorFunction_NaN_witness:
  "inverseErrorFunction (Fin (1 / 2)) = NaN
   \<and> calculateConfidenceInterval [1, 2, 3] (Fin (4 / 5))
         \<lparr>isNormal = False, knownVariance = True, populationVariance = Some (Fin 1),
          tailType = TwoTailed\<rparr> =
       Inr \<lparr>lower = NaN, upper = NaN, marginOfError = NaN,
            methodName = ''Z-distribution (known variance)'', criticalValue = NaN\<rparr>
   \<and> pa_inverseErrorFunction (Fin (1 / 2)) = PInf"
  using C5_inverseErrorFunction_NaN [where x = "1 / 2" and data = "[1, 2, 3]"
          and options = "\<lparr>isNormal = False, knownVariance = True,
                           populationVariance = Some (Fin 1), tailType = TwoTailed\<rparr>"]
        C5_inverseErrorFunction_NaN [where x = "4 / 5" and data = "[1, 2, 3]"
          and options = "\<lparr>isNormal = False, knownVariance = True,
                           populationVariance = Some (Fin 1), tailType = TwoTailed\<rparr>"]
  by simp

section \<open>Claim C6: the observed frequencies of the chi-square test\<close>

text \<open>
  C6: the observed frequencies of the final bins sum to the sample size, bins with an
  expected frequency below 5 being merged into a neighbour and not discarded. Neither
  chi-square test keeps this on every sample.

  In the goodness-of-fit module the merge loop adds the first bin to the second also when
  it is the only bin left: the sample \<open>[1, 2, 3, 4, 5]\<close> tested against the uniform
  distribution on \<open>[-10, 100]\<close> with 10 bins has the expected frequency 1/55 in every
  bin, all bins are merged into one, and the last step turns the observed frequencies
  into the single entry \<open>NaN\<close>.

  In the statistics utility the bins below 5 are filtered out whenever five bins remain:
  of the 40 values of \<open>sample40\<close>, tested against the uniform distribution on \<open>[1/4, 5/4]\<close>
  with 8 bins, the bins \<open>[0, 1/8)\<close> and \<open>[1/8, 1/4)\<close> have the expected frequency 0 and are
  dropped, the first with its one observation; the six bins kept (given below with their
  bounds, observed and expected frequencies) hold 39 observations.
\<close>

theorem C6_observed_frequencies_lost:
  "map_sum id observedFrequencies
     (gof_calculateChiSquareTest [1, 2, 3, 4, 5] ''uniform'' [(''a'', Fin (- 10)), (''b'', Fin 100)] 10)
   = Inr [NaN]
   \<and> map_sum id (\<lambda>r. map (\<lambda>b. (bin_min b, bin_max b, observed b, expected b)) (cs_bins r))
       (calculateChiSquareTest nm sample40 ''uniform'' [(''a'', Fin (1 / 4)), (''b'', Fin (5 / 4))] 8)
     = Inr [(Fin (1 / 4), Fin (3 / 8), Fin 0, Fin 5),
            (Fin (3 / 8), Fin (1 / 2), Fin 0, Fin 5),
            (Fin (1 / 2), Fin (5 / 8), Fin 0, Fin 5),
            (Fin (5 / 8), Fin (3 / 4), Fin 0, Fin 5),
            (Fin (3 / 4), Fin (7 / 8), Fin 0, Fin 5),
            (Fin (7 / 8), Fin (1 + 1 / 2 ^ 52), Fin 39, Fin (5 + 40 / 2 ^ 52))]"
  using gof_ex cs_ex [of nm] by (simp only: simp_thms)


section \<open>Claim C8: the rejection decision\<close>

text \<open>
  C8, as stated: the tests reject when the statistic is strictly beyond the critical
  value. A right-tailed t test of the sample \<open>[0, 0, 2, 2]\<close> against \<open>mu0 = -0.591\<close> at
  \<open>alpha = 0.05\<close> has the statistic 3.182, equal to the critical value, and rejects.
\<close>

theorem C8_equal_statistic_counterexample:
  "map_sum id tValue (performTTest [0, 0, 2, 2] (Fin (- 0.591)) (Fin 0.05) Right) = Inr (Fin 3.182)
   \<and> map_sum id tt_criticalValue (performTTest [0, 0, 2, 2] (Fin (- 0.591)) (Fin 0.05) Right)
       = Inr (Fin 3.182)
   \<and> map_sum id tt_rejected (performTTest [0, 0, 2, 2] (Fin (- 0.591)) (Fin 0.05) Right)
       = Inr True"
proof -
  have ne: "[0, 0, 2, 2 :: real] \<noteq> []" by simp
  have three: "closestDfLoop 3 = 3"
    by (simp add: closestDfLoop_in_table table3)
  obtain rt where "performTTest [0, 0, 2, 2] (Fin (- 0.591)) (Fin 0.05) Right = Inr rt"
    and "tValue rt = Fin 3.182" and "tt_criticalValue rt = Fin 3.182" and "tt_rejected rt"
    using performTTest_fields [OF ne, of "Fin (- 0.591)" "Fin 0.05" Right]
    by (auto simp: meanR_ex varR_ex len_ex three table3 levelEntry_def)
  then show ?thesis by simp
qed

text \<open>
  C8, amended: for every non-empty sample both tests decide rejection by a non-strict
  inequality of the test statistic against the critical value (statistic \<open>\<le>\<close> critical
  value for a left-tailed test, \<open>\<ge>\<close> for a right-tailed test, \<open>\<bar>statistic\<bar> \<ge>\<close> critical
  value for a two-sided test), not by comparing the p-value with \<open>alpha\<close>.
\<close>

theorem C8_rejection_by_critical_value:
  assumes "data \<noteq> []"
  shows "\<exists>rz rt.
           performZTest data mu0 sigma alpha testType = Inr rz
           \<and> performTTest data mu0 alpha testType = Inr rt
           \<and> zt_rejected rz =
               (case testType of
                  Left \<Rightarrow> zValue rz \<le> zt_criticalValue rz
                | Right \<Rightarrow> zt_criticalValue rz \<le> zValue rz
                | Two \<Rightarrow> zt_criticalValue rz \<le> \<bar>zValue rz\<bar>)
           \<and> tt_rejected rt =
               (case testType of
                  Left \<Rightarrow> tValue rt \<le> tt_criticalValue rt
                | Right \<Rightarrow> tt_criticalValue rt \<le> tValue rt
                | Two \<Rightarrow> tt_criticalValue rt \<le> \<bar>tValue rt\<bar>)"
  using performZTest_fields [OF assms, of mu0 sigma alpha testType]
        performTTest_fields [OF assms, of mu0 alpha testType]
  by blast

theorem C8_rejection_by_critical_value_witness:
  "\<exists>rz rt.
     performZTest [0, 0, 2, 2] (Fin 0) (Fin 1) (Fin 0.05) Two = Inr rz
     \<and> performTTest [0, 0, 2, 2] (Fin 0) (Fin 0.05) Two = Inr rt
     \<and> zt_rejected rz = (zt_criticalValue rz \<le> \<bar>zValue rz\<bar>)
     \<and> tt_rejected rt = (tt_criticalValue rt \<le> \<bar>tValue rt\<bar>)"
  using C8_rejection_by_critical_value [of "[0, 0, 2, 2]" "Fin 0" "Fin 1" "Fin 0.05" Two] by simp

text \<open>
  The decision does not follow the p-value: a left-tailed Z test of \<open>[0, 0, 2, 2]\<close>
  against its own mean at \<open>alpha = 0.6\<close> has the p-value \<open>0.5000000005 < alpha\<close>, and does
  not reject (its critical value is \<open>NaN\<close>).
\<close>

lemma performZTest_not_by_pValue:
  "performZTest [0, 0, 2, 2] (Fin 1) (Fin 1) (Fin 0.6) Left =
     Inr \<lparr>zt_mean = Fin 1, zValue = Fin 0, zt_pValue = Fin (1000000001 / 2000000000),
          zt_criticalValue = NaN, zt_rejected = False,
          zt_confidenceInterval = Some \<lparr>lower = NInf, upper = NaN\<rparr>\<rparr>"
proof -
  have a: "inverseErrorFunction (Fin (- (1 / 5))) = NaN"
    by (rule inverseErrorFunction_NaN) simp
  have b: "inverseErrorFunction (Fin (2 / 5)) = NaN"
    by (rule inverseErrorFunction_NaN) simp
  show ?thesis
    by (simp add: performZTest_def calculateMean_Fin meanR_ex len_ex normalCDF_zero a b Let_def)
qed


section \<open>Claim C9: the two estimators of the normal family\<close>

lemma sampleMoments_Fin:
  assumes "data \<noteq> []"
  shows "sampleMean data = Fin (meanR data)"
    and "sampleVariance data (Fin (meanR data)) = Fin (varR data)"
  using assms
  by (simp_all add: sampleMean_def sampleVariance_def sumOf_Fin_id sumOf_Fin div_len meanR_def varR_def)

lemma meanAndVariance_missing:
  assumes "data \<noteq> []"
  shows "meanAndVariance data \<lparr>es_mean = None, es_variance = None, es_std = None\<rparr>
           = (Fin (meanR data), Fin (varR data))"
  using assms by (simp add: meanAndVariance_def sampleMoments_Fin)

text \<open>
  C9: for every non-empty sample, \<open>calculateMLE(data, 'normal')\<close> and
  \<open>calculateMoM(data, 'normal')\<close> (no \<open>basicStats\<close>) return the same estimates: the sample
  mean and the square root of the population variance.
\<close>

theorem C9_normal_estimates_agree:
  assumes "data \<noteq> []"
  shows "calculateMLE data ''normal'' \<lparr>es_mean = None, es_variance = None, es_std = None\<rparr>
           = Inr [(''mean'', Fin (meanR data)), (''std'', Fin (sqrt (varR data)))]
         \<and> calculateMoM data ''normal'' \<lparr>es_mean = None, es_variance = None, es_std = None\<rparr>
           = Inr [(''mean'', Fin (meanR data)), (''std'', Fin (sqrt (varR data)))]"
  using assms varR_nonneg [of data]
  by (simp add: calculateMLE_def calculateMoM_def meanAndVariance_missing)

theorem C9_normal_estimates_agree_witness:
  "calculateMLE [1, 2, 3, 4, 5] ''normal'' \<lparr>es_mean = None, es_variance = None, es_std = None\<rparr>
     = Inr [(''mean'', Fin 3), (''std'', Fin (sqrt 2))]
   \<and> calculateMoM [1, 2, 3, 4, 5] ''normal'' \<lparr>es_mean = None, es_variance = None, es_std = None\<rparr>
     = Inr [(''mean'', Fin 3), (''std'', Fin (sqrt 2))]"
proof -
  have m: "meanR [1, 2, 3, 4, 5] = 3" by (simp add: meanR_def)
  have v: "varR [1, 2, 3, 4, 5] = 2" by (simp add: varR_def m)
  show ?thesis
    using C9_normal_estimates_agree [of "[1, 2, 3, 4, 5]"] by (simp add: m v)
qed


section \<open>Claim C7: symmetry of the error function\<close>

text \<open>
  C7, as stated: \<open>erf(-x) = -erf(x)\<close> for every finite \<open>x\<close>, \<open>erf(0) = 0\<close> exactly and
  \<open>normalCDF(0) = 0.5\<close> exactly. The five coefficients of the approximation sum to
  0.999999999, so at \<open>0\<close> (where \<open>t = 1\<close> and the exponential is 1) the function returns
  \<open>1 - 0.999999999\<close>, up to the rounding of the sum: \<open>erf(0)\<close> is not \<open>0\<close>.
\<close>

theorem C7_erf_zero_counterexample: "erf (Fin 0) \<noteq> Fin 0"
  by (simp add: erf_zero)

text \<open>
  C7, amended: for every finite \<open>x\<close> other than \<open>0\<close>, \<open>erf(-x) = -erf(x)\<close>; \<open>erf(0)\<close> is a
  positive number below \<open>2e-9\<close> (about \<open>1e-9\<close>) and \<open>normalCDF(0)\<close> lies above \<open>0.5\<close> and
  below \<open>0.500000001\<close>. (At \<open>0\<close> the sign is taken as \<open>+1\<close> for both \<open>0\<close> and \<open>-0\<close>, so the
  symmetry fails there.)
\<close>

theorem C7_erf_odd_nonzero:
  "(x \<noteq> 0 \<longrightarrow> erf (Fin (- x)) = - erf (Fin x))
   \<and> Fin 0 < erf (Fin 0) \<and> erf (Fin 0) < Fin (2 / 10 ^ 9)
   \<and> Fin 0.5 < normalCDF (Fin 0) \<and> normalCDF (Fin 0) < Fin 0.500000001"
  by (simp add: erf_odd erf_zero normalCDF_zero)

theorem C7_erf_odd_nonzero_witness:
  "erf (Fin (- 1)) = - erf (Fin 1)
   \<and> Fin 0 < erf (Fin 0) \<and> erf (Fin 0) < Fin (2 / 10 ^ 9)
   \<and> Fin 0.5 < normalCDF (Fin 0) \<and> normalCDF (Fin 0) < Fin 0.500000001"
  using C7_erf_odd_nonzero [of 1] by simp

section \<open>Claim C10: empty samples and paired samples of unequal length\<close>

text \<open>
  C10, as stated: every paired-sample function throws the length mismatch error when
  the two arrays differ in length. The paired branch of
  \<open>calculateTwoSampleConfidenceInterval\<close> checks for an empty array first: with an empty
  first sample and one value in the second it throws the empty data error.
\<close>

theorem C10_empty_first_counterexample:
  "calculateTwoSampleConfidenceInterval [] [1] (Fin 0.95) (Some Paired) = Inl EmptyDataError"
  by (simp add: calculateTwoSampleConfidenceInterval_def)

text \<open>
  C10, amended: every descriptive statistic (mean, median, mode, variance, standard
  deviation, skewness, kurtosis, quartiles) throws the empty data error on an empty
  array; \<open>calculateDifferences\<close> and \<open>calculatePairedMeanCI\<close> throw the length mismatch
  error whenever the two arrays differ in length, and the paired branch of
  \<open>calculateTwoSampleConfidenceInterval\<close> does so when, in addition, neither array is
  empty.
\<close>

theorem C10_errors:
  assumes "length before \<noteq> length after"
  shows "calculateMean [] = Inl EmptyDataError
         \<and> calculateMedian [] = Inl EmptyDataError
         \<and> calculateMode [] = Inl EmptyDataError
         \<and> calculateVariance [] = Inl EmptyDataError
         \<and> calculateStd [] = Inl EmptyDataError
         \<and> calculateSkewness [] stats = Inl EmptyDataError
         \<and> calculateKurtosis [] stats = Inl EmptyDataError
         \<and> calculateQuartiles [] = Inl EmptyDataError
         \<and> calculateDifferences before after = Inl LengthMismatchError
         \<and> calculatePairedMeanCI before after level = Inl LengthMismatchError
         \<and> (if before = [] \<or> after = []
             then calculateTwoSampleConfidenceInterval before after level (Some Paired)
                    = Inl EmptyDataError
             else calculateTwoSampleConfidenceInterval before after level (Some Paired)
                    = Inl LengthMismatchError)"
  using assms
  by (simp add: calculateMean_def calculateMedian_def calculateMode_def calculateVariance_def
      calculateStd_def calculateSkewness_def calculateKurtosis_def calculateQuartiles_def
      calculateDifferences_def calculatePairedMeanCI_def calculateTwoSampleConfidenceInterval_def
      calculateMean_Fin Let_def)

theorem C10_errors_witness:
  "calculateMean [] = Inl EmptyDataError
   \<and> calculateMedian [] = Inl EmptyDataError
   \<and> calculateMode [] = Inl EmptyDataError
   \<and> calculateVariance [] = Inl EmptyDataError
   \<and> calculateStd [] = Inl EmptyDataError
   \<and> calculateSkewness [] None = Inl EmptyDataError
   \<and> calculateKurtosis [] None = Inl EmptyDataError
   \<and> calculateQuartiles [] = Inl EmptyDataError
   \<and> calculateDifferences [1] [1, 2] = Inl LengthMismatchError
   \<and> calculatePairedMeanCI [1] [1, 2] (Fin 0.95) = Inl LengthMismatchError
   \<and> calculateTwoSampleConfidenceInterval [1] [1, 2] (Fin 0.95) (Some Paired)
       = Inl LengthMismatchError"
  using C10_errors [of "[1]" "[1, 2]" None "Fin 0.95"] by simp

end
